theory Spec2Isabelle
  imports Main "HOL-Library.Word"
begin

unbundle bit_operations_syntax

section \<open>Bytes, strings and the standard library\<close>

text \<open>
  A Go string is a sequence of bytes; it is modelled as a \<open>string\<close> (a list of 8-bit
  \<open>char\<close>s). \<open>int32\<close> and \<open>uint32\<close> are 32-bit words: \<open>sint\<close> reads the first,
  \<open>uint\<close> the second, and the conversion \<open>uint32(x)\<close> of an \<open>int32\<close> keeps the bits.
\<close>

type_synonym int32 = "32 word"
type_synonym uint32 = "32 word"

text \<open>
  The functions of Go's standard library that block.go calls and that are not modelled
  here are parameters: \<open>strconv.ParseFloat(s, 32)\<close> (\<open>None\<close> when it returns an error),
  the verb \<open>%.1f\<close> on a float32, and what \<open>strings.TrimSpace\<close> and \<open>strings.ToUpper\<close>
  do on a string that holds a byte outside ASCII (Unicode white space and case tables).
  The type \<open>'f\<close> stands for float32.
\<close>

record 'f stdlib =
  ParseFloat32 :: "string \<Rightarrow> 'f option"
  FormatFloat1 :: "'f \<Rightarrow> string"
  TrimSpace_unicode :: "string \<Rightarrow> string"
  ToUpper_unicode :: "string \<Rightarrow> string"

definition byte :: "char \<Rightarrow> int" where
  "byte c = of_char c"

definition is_ascii :: "char \<Rightarrow> bool" where
  "is_ascii c = (byte c < 128)"

text \<open>\<open>asciiSpace\<close> of package strings: tab, LF, VT, FF, CR and space.\<close>

definition asciiSpace :: "char \<Rightarrow> bool" where
  "asciiSpace c = (byte c \<in> {9, 10, 11, 12, 13, 32})"

definition TrimSpace :: "'f stdlib \<Rightarrow> string \<Rightarrow> string" where
  "TrimSpace lib s =
     (if list_all is_ascii s
      then rev (dropWhile asciiSpace (rev (dropWhile asciiSpace s)))
      else TrimSpace_unicode lib s)"

definition upper_byte :: "char \<Rightarrow> char" where
  "upper_byte c = (if 97 \<le> byte c \<and> byte c \<le> 122 then char_of (byte c - 32) else c)"

definition ToUpper :: "'f stdlib \<Rightarrow> string \<Rightarrow> string" where
  "ToUpper lib s =
     (if list_all is_ascii s then map upper_byte s else ToUpper_unicode lib s)"

text \<open>The class \<open>\s\<close> of package regexp: tab, LF, FF, CR and space.\<close>

definition regexp_space :: "char \<Rightarrow> bool" where
  "regexp_space c = (byte c \<in> {9, 10, 12, 13, 32})"

text \<open>
  \<open>removeDuplicateSpaces\<close>: every leftmost longest run of two or more \<open>\s\<close> bytes
  becomes one space; a run of one byte is kept as it is.
\<close>

function removeDuplicateSpaces :: "string \<Rightarrow> string" where
  "removeDuplicateSpaces [] = []"
| "removeDuplicateSpaces (c # cs) =
     (if regexp_space c \<and> takeWhile regexp_space cs \<noteq> []
      then CHR '' '' # removeDuplicateSpaces (dropWhile regexp_space cs)
      else c # removeDuplicateSpaces cs)"
  by pat_completeness auto
termination
  by (relation "measure length") (auto simp: length_dropWhile_le less_Suc_eq_le)

text \<open>\<open>removeSpecialChars\<close>: every LF, tab and CR becomes a space.\<close>

definition removeSpecialChars :: "string \<Rightarrow> string" where
  "removeSpecialChars s = map (\<lambda>c. if byte c \<in> {10, 9, 13} then CHR '' '' else c) s"

definition prepareSourceToParse :: "'f stdlib \<Rightarrow> string \<Rightarrow> string" where
  "prepareSourceToParse lib s =
     removeSpecialChars (removeDuplicateSpaces (ToUpper lib (TrimSpace lib s)))"

text \<open>
  \<open>strings.IndexRune(s, ' ')\<close>: the index of the first space, or -1. For an ASCII rune
  it is the index of the first byte equal to it.
\<close>

definition IndexRune :: "string \<Rightarrow> char \<Rightarrow> int" where
  "IndexRune s c = (if c \<in> set s then int (length (takeWhile (\<lambda>x. x \<noteq> c) s)) else - 1)"

text \<open>\<open>strings.Join\<close>.\<close>

fun Join :: "string list \<Rightarrow> string \<Rightarrow> string" where
  "Join [] sep = []"
| "Join [x] sep = x"
| "Join (x # y # ys) sep = x @ sep @ Join (y # ys) sep"

subsection \<open>strconv.ParseInt(s, 10, 32)\<close>

definition is_digit :: "char \<Rightarrow> bool" where
  "is_digit c = (48 \<le> byte c \<and> byte c \<le> 57)"

definition digits_value :: "string \<Rightarrow> int" where
  "digits_value ds = foldl (\<lambda>n c. 10 * n + (byte c - 48)) 0 ds"

text \<open>
  \<open>ParseUint(s, 10, 32)\<close> wants a non-empty string of decimal digits (an underscore is
  accepted for base 0 only); a value over the range is an error of its own (ErrRange),
  and \<open>ParseInt\<close> then checks the sign's bound: at most \<open>2^31 - 1\<close>, or \<open>2^31\<close> after a
  minus sign. \<open>None\<close> is any non-nil error.
\<close>

definition ParseInt32 :: "string \<Rightarrow> int32 option" where
  "ParseInt32 s =
     (if s = [] then None
      else let neg = (hd s = CHR ''-'');
               ds = (if hd s = CHR ''+'' \<or> hd s = CHR ''-'' then tl s else s)
           in if ds = [] \<or> \<not> list_all is_digit ds then None
              else let un = digits_value ds
                   in if \<not> neg \<and> un \<ge> 2 ^ 31 then None
                      else if neg \<and> un > 2 ^ 31 then None
                      else Some (if neg then word_of_int (- un) else word_of_int un))"

subsection \<open>Decimal output: the verb \<open>%d\<close>\<close>

definition digit_char :: "int \<Rightarrow> char" where
  "digit_char d = char_of (48 + d)"

text \<open>The decimal digits of a number that is not negative.\<close>

function show_digits :: "int \<Rightarrow> string" where
  "show_digits n =
     (if n < 10 then [digit_char n] else show_digits (n div 10) @ [digit_char (n mod 10)])"
  by pat_completeness auto
termination
  by (relation "measure nat") auto

declare show_digits.simps [simp del]

definition show_int :: "int \<Rightarrow> string" where
  "show_int i = (if i < 0 then CHR ''-'' # show_digits (- i) else show_digits i)"

section \<open>Gcodes and their factory\<close>

datatype error =
    WordInvalidValue char
  | AddressStringTooShort string
  | AddressStringContainInvalidChars string
  | AddressStringQuoteError string
  | OtherError string
  | CommandRequired
  | LineNumberNotParsed
  | ChecksumNil string
  | GcodeFactoryNil string
  | HashFailed string error
  | ChecksumGcodeFailed int error
  | UpdateFailed string error
  | NoCheckSection string
  | VerifyFailed string error
  | ConfigurationNotApplied error
  | ConfigurationFailed error

text \<open>
  The two concrete gcode types of the repository: a word alone, or a word and an address
  of type int32, uint32, float32 or string.
\<close>

datatype 'a addressable = Addressable (aword: char) (address: 'a)

datatype 'f gcoder =
    Unaddressable char
  | GInt32 "int32 addressable"
  | GUint32 "uint32 addressable"
  | GFloat32 "'f addressable"
  | GString "string addressable"

fun Word :: "'f gcoder \<Rightarrow> char" where
  "Word (Unaddressable w) = w"
| "Word (GInt32 a) = aword a"
| "Word (GUint32 a) = aword a"
| "Word (GFloat32 a) = aword a"
| "Word (GString a) = aword a"

fun HasAddress :: "'f gcoder \<Rightarrow> bool" where
  "HasAddress (Unaddressable w) = False"
| "HasAddress _ = True"

text \<open>
  Modelled from the spec: the packages addressablegcode and unaddressablegcode are not
  among the sources. \<open>String\<close> is the word followed by the address in its canonical form
  (\<open>%d\<close> for the integers, one fractional digit for a float, the text of a string as it
  is); \<open>Compare\<close> is equality of word and address.
\<close>

fun gcoder_String :: "'f stdlib \<Rightarrow> 'f gcoder \<Rightarrow> string" where
  "gcoder_String lib (Unaddressable w) = [w]"
| "gcoder_String lib (GInt32 a) = aword a # show_int (sint (address a))"
| "gcoder_String lib (GUint32 a) = aword a # show_digits (uint (address a))"
| "gcoder_String lib (GFloat32 a) = aword a # FormatFloat1 lib (address a)"
| "gcoder_String lib (GString a) = aword a # address a"

definition uint32_String :: "uint32 addressable \<Rightarrow> string" where
  "uint32_String a = aword a # show_digits (uint (address a))"

definition Compare :: "'a addressable \<Rightarrow> 'a addressable \<Rightarrow> bool" where
  "Compare a b = (aword a = aword b \<and> address a = address b)"

text \<open>The interface \<open>gcode.GcoderFactory\<close>: one constructor for each shape.\<close>

record 'f factory =
  NewUnaddressableGcode :: "char \<Rightarrow> error + 'f gcoder"
  NewAddressableGcodeInt32 :: "char \<Rightarrow> int32 \<Rightarrow> error + int32 addressable"
  NewAddressableGcodeUint32 :: "char \<Rightarrow> uint32 \<Rightarrow> error + uint32 addressable"
  NewAddressableGcodeFloat32 :: "char \<Rightarrow> 'f \<Rightarrow> error + 'f addressable"
  NewAddressableGcodeString :: "char \<Rightarrow> string \<Rightarrow> error + string addressable"

text \<open>
  Modelled from the spec: the package block/internal/gcodefactory and the validation of
  words and addresses it calls are not among the sources. A word is valid when it is one
  of \<open>A\<close>..\<open>Z\<close> or \<open>*\<close>; a string address has at least two bytes and passes the
  four-state machine of the spec (opening quote, doubled interior quotes, no tab, CR or
  LF inside, closing quote at the end).
\<close>

definition valid_word :: "char \<Rightarrow> bool" where
  "valid_word w = ((65 \<le> byte w \<and> byte w \<le> 90) \<or> w = CHR ''*'')"

datatype quote_state = Start | InQuote | SawQuote

fun scan_quoted :: "string \<Rightarrow> quote_state \<Rightarrow> string \<Rightarrow> error + unit" where
  "scan_quoted s Start [] = Inl (AddressStringQuoteError s)"
| "scan_quoted s Start (c # cs) =
     (if c = CHR 0x22 then scan_quoted s InQuote cs else Inl (AddressStringQuoteError s))"
| "scan_quoted s InQuote [] = Inl (AddressStringQuoteError s)"
| "scan_quoted s InQuote (c # cs) =
     (if c = CHR 0x22 then scan_quoted s SawQuote cs
      else if byte c \<in> {9, 13, 10} then Inl (AddressStringContainInvalidChars s)
      else scan_quoted s InQuote cs)"
| "scan_quoted s SawQuote [] = Inr ()"
| "scan_quoted s SawQuote (c # cs) =
     (if c = CHR 0x22 then scan_quoted s InQuote cs else Inl (AddressStringQuoteError s))"

definition validate_string :: "string \<Rightarrow> error + unit" where
  "validate_string s =
     (if length s < 2 then Inl (AddressStringTooShort s) else scan_quoted s Start s)"

definition new_addressable :: "char \<Rightarrow> 'a \<Rightarrow> error + 'a addressable" where
  "new_addressable w a = (if valid_word w then Inr (Addressable w a) else Inl (WordInvalidValue w))"

definition GcodeFactory :: "'f factory" where
  "GcodeFactory =
     \<lparr> NewUnaddressableGcode =
         (\<lambda>w. if valid_word w then Inr (Unaddressable w) else Inl (WordInvalidValue w)),
       NewAddressableGcodeInt32 = new_addressable,
       NewAddressableGcodeUint32 = new_addressable,
       NewAddressableGcodeFloat32 = new_addressable,
       NewAddressableGcodeString =
         (\<lambda>w a. if \<not> valid_word w then Inl (WordInvalidValue w)
                else case validate_string a of Inl e \<Rightarrow> Inl e | Inr _ \<Rightarrow> Inr (Addressable w a)) \<rparr>"

section \<open>Blocks\<close>

text \<open>
  The interface \<open>hash.Hash\<close>: an engine with a hidden state of type \<open>'h\<close>. \<open>Reset\<close> and
  \<open>Write\<close> change the state, \<open>Sum\<close> appends the digest to its argument and leaves the
  state as it is. \<open>Write\<close> also returns an error (\<open>None\<close> for nil).
\<close>

record 'h hasher =
  hstate :: 'h
  hReset :: "'h \<Rightarrow> 'h"
  hWrite :: "'h \<Rightarrow> string \<Rightarrow> error option \<times> 'h"
  hSum :: "'h \<Rightarrow> string \<Rightarrow> string"

text \<open>
  The struct \<open>Block\<close>. A nil interface or pointer is \<open>None\<close>. The slice of parameters is
  a list: the methods of Block only range over it, so a nil slice and an empty one behave
  alike.
\<close>

record ('f, 'h) Block =
  lineNumber :: "uint32 addressable option"
  command :: "'f gcoder option"
  parameters :: "'f gcoder list"
  checksum :: "uint32 addressable option"
  comment :: string
  hash :: "'h hasher option"
  gcodeFactory :: "'f factory option"

text \<open>What a call does: it panics, returns a non-nil error, or returns a value.\<close>

datatype panic = NilDereference | IndexOutOfRange nat nat

datatype 'a outcome = Panicked panic | Failed error | Returned 'a

definition BLOCK_SEPARATOR :: string where
  "BLOCK_SEPARATOR = '' ''"

definition ToLine :: "'f stdlib \<Rightarrow> ('f, 'h) Block \<Rightarrow> string" where
  "ToLine lib b =
     (let values = [];
          values = (case lineNumber b of None \<Rightarrow> values | Some ln \<Rightarrow> values @ [uint32_String ln]);
          values = (case command b of None \<Rightarrow> values | Some c \<Rightarrow> values @ [gcoder_String lib c]);
          values = foldl (\<lambda>vs g. vs @ [gcoder_String lib g]) values (parameters b)
      in Join values BLOCK_SEPARATOR)"

definition ToLineWithCheck :: "'f stdlib \<Rightarrow> ('f, 'h) Block \<Rightarrow> string" where
  "ToLineWithCheck lib b =
     (let line = ToLine lib b
      in case checksum b of
           None \<Rightarrow> line
         | Some c \<Rightarrow> Join [line, uint32_String c] BLOCK_SEPARATOR)"

definition ToLineWithCheckAndComments :: "'f stdlib \<Rightarrow> ('f, 'h) Block \<Rightarrow> string" where
  "ToLineWithCheckAndComments lib b =
     (let line = ToLineWithCheck lib b
      in if length (comment b) > 0 then Join [line, comment b] BLOCK_SEPARATOR else line)"

definition Block_String :: "'f stdlib \<Rightarrow> ('f, 'h) Block \<Rightarrow> string" where
  "Block_String lib b = ToLineWithCheckAndComments lib b"

subsection \<open>The checksum\<close>

text \<open>
  The methods that call the hash engine change its state, so each returns the block
  after the call beside its outcome. A nil hash engine or factory makes the method call
  on it panic, and so does the index 0 of an empty digest.
\<close>

definition CalculateChecksum ::
  "'f stdlib \<Rightarrow> ('f, 'h) Block \<Rightarrow> uint32 addressable outcome \<times> ('f, 'h) Block" where
  "CalculateChecksum lib b =
     (case hash b of
        None \<Rightarrow> (Panicked NilDereference, b)
      | Some h \<Rightarrow>
          (let (err, st) = hWrite h (hReset h (hstate h)) (ToLine lib b);
               b' = b\<lparr>hash := Some (h\<lparr>hstate := st\<rparr>)\<rparr>
           in case err of
                Some e \<Rightarrow> (Failed (HashFailed (ToLine lib b') e), b')
              | None \<Rightarrow>
                  (let digest = hSum h st []
                   in if digest = [] then (Panicked (IndexOutOfRange 0 0), b')
                      else case gcodeFactory b' of
                             None \<Rightarrow> (Panicked NilDereference, b')
                           | Some fac \<Rightarrow>
                               (case NewAddressableGcodeUint32 fac (CHR ''*'')
                                       (word_of_int (byte (digest ! 0))) of
                                  Inl e \<Rightarrow> (Failed (ChecksumGcodeFailed (byte (digest ! 0)) e), b')
                                | Inr gc \<Rightarrow> (Returned gc, b')))))"

definition UpdateChecksum ::
  "'f stdlib \<Rightarrow> ('f, 'h) Block \<Rightarrow> unit outcome \<times> ('f, 'h) Block" where
  "UpdateChecksum lib b =
     (case CalculateChecksum lib b of
        (Panicked p, b') \<Rightarrow> (Panicked p, b')
      | (Failed e, b') \<Rightarrow> (Failed (UpdateFailed (Block_String lib b') e), b')
      | (Returned gc, b') \<Rightarrow> (Returned (), b'\<lparr>checksum := Some gc\<rparr>))"

definition VerifyChecksum ::
  "'f stdlib \<Rightarrow> ('f, 'h) Block \<Rightarrow> bool outcome \<times> ('f, 'h) Block" where
  "VerifyChecksum lib b =
     (case checksum b of
        None \<Rightarrow> (Failed (NoCheckSection (Block_String lib b)), b)
      | Some stored \<Rightarrow>
          (case CalculateChecksum lib b of
             (Panicked p, b') \<Rightarrow> (Panicked p, b')
           | (Failed e, b') \<Rightarrow> (Failed (VerifyFailed (Block_String lib b') e), b')
           | (Returned gc, b') \<Rightarrow> (Returned (Compare stored gc), b')))"

definition setChecksum ::
  "'f stdlib \<Rightarrow> 'h hasher option \<Rightarrow> ('f, 'h) Block \<Rightarrow> error + ('f, 'h) Block" where
  "setChecksum lib h b =
     (case h of
        None \<Rightarrow> Inl (ChecksumNil (Block_String lib b))
      | Some e \<Rightarrow> Inr (b\<lparr>hash := Some e\<rparr>))"

definition setGcodeFactory ::
  "'f stdlib \<Rightarrow> 'f factory option \<Rightarrow> ('f, 'h) Block \<Rightarrow> error + ('f, 'h) Block" where
  "setGcodeFactory lib fac b =
     (case fac of
        None \<Rightarrow> Inl (GcodeFactoryNil (Block_String lib b))
      | Some f \<Rightarrow> Inr (b\<lparr>gcodeFactory := Some f\<rparr>))"

subsection \<open>The constructor\<close>

text \<open>
  Modelled from the spec: the type \<open>BlockConfigurationParameter\<close>, its setters and the
  callbacks they stage are not among the sources. A staged action stores one section of
  the block: line number, parameters, checksum, comment, hash engine or factory. The last
  two go through \<open>setChecksum\<close> and \<open>setGcodeFactory\<close> of block.go, which refuse nil.
\<close>

datatype ('f, 'h) action =
    StoreLineNumber "uint32 addressable"
  | StoreParameters "'f gcoder list"
  | StoreChecksum "uint32 addressable"
  | StoreComment string
  | StoreHash "'h hasher option"
  | StoreGcodeFactory "'f factory option"

fun run_action ::
  "'f stdlib \<Rightarrow> ('f, 'h) action \<Rightarrow> ('f, 'h) Block \<Rightarrow> error + ('f, 'h) Block" where
  "run_action lib (StoreLineNumber ln) b = Inr (b\<lparr>lineNumber := Some ln\<rparr>)"
| "run_action lib (StoreParameters ps) b = Inr (b\<lparr>parameters := ps\<rparr>)"
| "run_action lib (StoreChecksum c) b = Inr (b\<lparr>checksum := Some c\<rparr>)"
| "run_action lib (StoreComment s) b = Inr (b\<lparr>comment := s\<rparr>)"
| "run_action lib (StoreHash h) b = setChecksum lib h b"
| "run_action lib (StoreGcodeFactory f) b = setGcodeFactory lib f b"

text \<open>The inner loop of \<open>New\<close>: every staged action, in order, on the one block.\<close>

fun run_actions ::
  "'f stdlib \<Rightarrow> ('f, 'h) action list \<Rightarrow> ('f, 'h) Block \<Rightarrow> error + ('f, 'h) Block" where
  "run_actions lib [] b = Inr b"
| "run_actions lib (a # as) b =
     (case run_action lib a b of Inl e \<Rightarrow> Inl e | Inr b' \<Rightarrow> run_actions lib as b')"

text \<open>
  The outer loop of \<open>New\<close>: an option stages actions in the configuration (or fails); then
  all the actions staged so far run, those of the earlier options again.
\<close>

type_synonym ('f, 'h) configurer = "('f, 'h) action list \<Rightarrow> error + ('f, 'h) action list"

fun run_options ::
  "'f stdlib \<Rightarrow> ('f, 'h) configurer list \<Rightarrow> ('f, 'h) action list \<Rightarrow> ('f, 'h) Block
     \<Rightarrow> ('f, 'h) Block outcome" where
  "run_options lib [] config b = Returned b"
| "run_options lib (option # options) config b =
     (case option config of
        Inl err \<Rightarrow> Failed (ConfigurationNotApplied err)
      | Inr config' \<Rightarrow>
          (case run_actions lib config' b of
             Inl err \<Rightarrow> Failed (ConfigurationFailed err)
           | Inr b' \<Rightarrow> run_options lib options config' b'))"

definition New ::
  "'f stdlib \<Rightarrow> 'f gcoder option \<Rightarrow> ('f, 'h) configurer list \<Rightarrow> ('f, 'h) Block outcome" where
  "New lib cmd options =
     (case cmd of
        None \<Rightarrow> Failed CommandRequired
      | Some c \<Rightarrow>
          run_options lib options []
            \<lparr> lineNumber = None, command = Some c, parameters = [], checksum = None,
              comment = [], hash = None, gcodeFactory = None \<rparr>)"

subsection \<open>Parse\<close>

text \<open>The conversion \<open>uint32(x)\<close> of an int32: the same 32 bits.\<close>

definition uint32_of_int32 :: "int32 \<Rightarrow> uint32" where
  "uint32_of_int32 x = word_of_int (sint x)"

text \<open>
  The loop of \<open>Parse\<close>, on the prepared line: \<open>i0\<close> is the index left by the round before
  (0 at the start). The round takes the text up to the first space as \<open>pgcode\<close>, makes a
  gcode of it and goes on from the space; a first byte that is a space is dropped.
\<close>

function parse_loop ::
  "'f stdlib \<Rightarrow> 'f factory \<Rightarrow> int \<Rightarrow> string \<Rightarrow> 'f gcoder list \<Rightarrow> error + 'f gcoder list" where
  "parse_loop lib fac i0 pblock gcodes =
     (if i0 \<le> - 1 then Inr gcodes
      else if length pblock = 0 then Inr gcodes
      else let i = IndexRune pblock (CHR '' '')
           in if i = 0 then parse_loop lib fac i (drop 1 pblock) gcodes
              else let pgcode = (if i \<le> - 1 then pblock else take (nat i) pblock);
                       pword = hd pgcode;
                       paddress = (if length pgcode > 1 then drop 1 pgcode else [])
                   in if length pgcode > 1
                      then (case ParseInt32 paddress of
                              Some valueInt \<Rightarrow>
                                (case NewAddressableGcodeInt32 fac pword valueInt of
                                   Inl err \<Rightarrow> Inl err
                                 | Inr gca \<Rightarrow>
                                     if i \<le> - 1 then Inr (gcodes @ [GInt32 gca])
                                     else parse_loop lib fac i (drop (nat i) pblock)
                                            (gcodes @ [GInt32 gca]))
                            | None \<Rightarrow>
                                (case ParseFloat32 lib paddress of
                                   Some valueFloat \<Rightarrow>
                                     (case NewAddressableGcodeFloat32 fac pword valueFloat of
                                        Inl err \<Rightarrow> Inl err
                                      | Inr gca \<Rightarrow>
                                          if i \<le> - 1 then Inr (gcodes @ [GFloat32 gca])
                                          else parse_loop lib fac i (drop (nat i) pblock)
                                                 (gcodes @ [GFloat32 gca]))
                                 | None \<Rightarrow>
                                     (case NewAddressableGcodeString fac pword paddress of
                                        Inl err \<Rightarrow> Inl err
                                      | Inr gca \<Rightarrow>
                                          if i \<le> - 1 then Inr (gcodes @ [GString gca])
                                          else parse_loop lib fac i (drop (nat i) pblock)
                                                 (gcodes @ [GString gca]))))
                      else (case NewUnaddressableGcode fac pword of
                              Inl err \<Rightarrow> Inl err
                            | Inr gc \<Rightarrow>
                                if i \<le> - 1 then Inr (gcodes @ [gc])
                                else parse_loop lib fac i (drop (nat i) pblock) (gcodes @ [gc])))"
  by pat_completeness auto
termination
  by (relation "measure (\<lambda>(lib, fac, i0, pblock, gcodes). length pblock)") auto

declare parse_loop.simps [simp del]

text \<open>
  The line number of a block whose first gcode has the word \<open>N\<close>: the gcode must be an
  addressable gcode of int32, and its address goes to the factory as a uint32. The error
  of that call is dropped, and a nil result with it.
\<close>

definition line_number_of :: "'f factory \<Rightarrow> int32 addressable \<Rightarrow> uint32 addressable option" where
  "line_number_of fac ln2 =
     (case NewAddressableGcodeUint32 fac (CHR ''N'') (uint32_of_int32 (address ln2)) of
        Inl err \<Rightarrow> None
      | Inr ln \<Rightarrow> Some ln)"

definition Parse ::
  "'f stdlib \<Rightarrow> string \<Rightarrow> 'h hasher option \<Rightarrow> 'f factory option \<Rightarrow> ('f, 'h) Block outcome" where
  "Parse lib s checksum_arg factory_arg =
     (let pblock = prepareSourceToParse lib s;
          fac = (case factory_arg of None \<Rightarrow> GcodeFactory | Some f \<Rightarrow> f)
      in case parse_loop lib fac 0 pblock [] of
           Inl err \<Rightarrow> Failed err
         | Inr gcodes \<Rightarrow>
             if length gcodes = 1
             then (if Word (gcodes ! 0) = CHR ''N''
                   then (case gcodes ! 0 of
                           GInt32 ln2 \<Rightarrow>
                             Returned \<lparr> lineNumber = line_number_of fac ln2, command = None,
                                        parameters = [], checksum = None, comment = [],
                                        hash = checksum_arg, gcodeFactory = Some fac \<rparr>
                         | _ \<Rightarrow> Failed LineNumberNotParsed)
                   else Returned \<lparr> lineNumber = None, command = Some (gcodes ! 0),
                                   parameters = [], checksum = None, comment = [],
                                   hash = checksum_arg, gcodeFactory = Some fac \<rparr>)
             else if length gcodes = 0 then Panicked (IndexOutOfRange 0 0)
             else (if Word (gcodes ! 0) = CHR ''N''
                   then (case gcodes ! 0 of
                           GInt32 ln2 \<Rightarrow>
                             Returned \<lparr> lineNumber = line_number_of fac ln2,
                                        command = Some (gcodes ! 1),
                                        parameters = drop 2 gcodes, checksum = None, comment = [],
                                        hash = checksum_arg, gcodeFactory = Some fac \<rparr>
                         | _ \<Rightarrow> Failed LineNumberNotParsed)
                   else Returned \<lparr> lineNumber = None, command = Some (gcodes ! 0),
                                   parameters = drop 1 gcodes, checksum = None, comment = [],
                                   hash = checksum_arg, gcodeFactory = Some fac \<rparr>))"

section \<open>The parser as the spec states it\<close>

text \<open>
  The words of the spec, to compare with the loop: the prepared line is split on single
  spaces and the empty tokens are dropped; a token is its word (the first byte) and the
  remainder; an empty remainder gives an unaddressable gcode, and any other is tried as an
  int32, then as a float32, then as a string, the first success deciding; a failure of the
  factory ends the parse.
\<close>

fun split :: "string \<Rightarrow> string \<Rightarrow> string list" where
  "split cur [] = [cur]"
| "split cur (c # cs) = (if c = CHR '' '' then cur # split [] cs else split (cur @ [c]) cs)"

definition split_tokens :: "string \<Rightarrow> string list" where
  "split_tokens s = filter (\<lambda>t. t \<noteq> []) (split [] s)"

definition sniff :: "'f stdlib \<Rightarrow> 'f factory \<Rightarrow> string \<Rightarrow> error + 'f gcoder" where
  "sniff lib fac tok =
     (if tl tok = [] then NewUnaddressableGcode fac (hd tok)
      else case ParseInt32 (tl tok) of
             Some v \<Rightarrow> map_sum id GInt32 (NewAddressableGcodeInt32 fac (hd tok) v)
           | None \<Rightarrow>
               (case ParseFloat32 lib (tl tok) of
                  Some x \<Rightarrow> map_sum id GFloat32 (NewAddressableGcodeFloat32 fac (hd tok) x)
                | None \<Rightarrow> map_sum id GString (NewAddressableGcodeString fac (hd tok) (tl tok))))"

fun sniff_all :: "'f stdlib \<Rightarrow> 'f factory \<Rightarrow> string list \<Rightarrow> error + 'f gcoder list" where
  "sniff_all lib fac [] = Inr []"
| "sniff_all lib fac (t # ts) =
     (case sniff lib fac t of
        Inl e \<Rightarrow> Inl e
      | Inr g \<Rightarrow> map_sum id (\<lambda>gs. g # gs) (sniff_all lib fac ts))"

definition onto :: "'a list \<Rightarrow> error + 'a list \<Rightarrow> error + 'a list" where
  "onto gcodes r = map_sum id (\<lambda>gs. gcodes @ gs) r"

section \<open>Instances\<close>

text \<open>
  A standard library to run the model on concrete lines: \<open>ParseFloat\<close> reads a plain
  decimal literal (sign, digits, at most one point, no exponent) as the pair of its digits
  and the number of fractional digits, and refuses any other text; \<open>%.1f\<close> prints such a
  pair with one fractional digit. On the literals of the lines below (\<open>2.0\<close>,
  \<open>3000.0\<close>, \<open>1.5\<close>, \<open>2147483648\<close>) and on the texts it refuses there
  (\<open>0*67\<close>, \<open>COMENTARIO\<close>), Go's functions do the same.
\<close>

definition decimal_ParseFloat :: "string \<Rightarrow> (int \<times> nat) option" where
  "decimal_ParseFloat s =
     (let neg = (s \<noteq> [] \<and> hd s = CHR ''-'');
          body = (if s \<noteq> [] \<and> (hd s = CHR ''+'' \<or> hd s = CHR ''-'') then tl s else s);
          ip = takeWhile is_digit body;
          rest = dropWhile is_digit body;
          fp = (if rest \<noteq> [] \<and> hd rest = CHR ''.'' then tl rest else rest)
      in if list_all is_digit fp \<and> ip @ fp \<noteq> []
         then Some ((if neg then - digits_value (ip @ fp) else digits_value (ip @ fp)), length fp)
         else None)"

definition decimal_Format1 :: "int \<times> nat \<Rightarrow> string" where
  "decimal_Format1 v =
     (let t = (\<bar>fst v\<bar> * 10) div 10 ^ snd v
      in (if fst v < 0 then ''-'' else []) @ show_digits (t div 10) @ ''.'' @ show_digits (t mod 10))"

definition decimal_lib :: "(int \<times> nat) stdlib" where
  "decimal_lib =
     \<lparr> ParseFloat32 = decimal_ParseFloat, FormatFloat1 = decimal_Format1,
       TrimSpace_unicode = id, ToUpper_unicode = id \<rparr>"

text \<open>
  Modelled from the spec: the package checksum, whose \<open>New\<close> makes the hash engine of the
  tests, is not among the sources. The spec names the reference engine: the sum of the
  bytes modulo 256, one byte of digest.
\<close>

definition sum_hasher :: "8 word hasher" where
  "sum_hasher =
     \<lparr> hstate = 0, hReset = (\<lambda>st. 0),
       hWrite = (\<lambda>st bs. (None, foldl (\<lambda>a c. a + word_of_int (byte c)) st bs)),
       hSum = (\<lambda>st b. b @ [char_of (uint st)]) \<rparr>"

text \<open>
  The engine of the line protocol of RepRap firmware, for comparison: the exclusive or
  of the bytes.
\<close>

definition xor_hasher :: "8 word hasher" where
  "xor_hasher =
     \<lparr> hstate = 0, hReset = (\<lambda>st. 0),
       hWrite = (\<lambda>st bs. (None, foldl (\<lambda>a c. a XOR word_of_int (byte c)) st bs)),
       hSum = (\<lambda>st b. b @ [char_of (uint st)]) \<rparr>"

text \<open>A factory with another policy for words: letters only, so that \<open>*\<close> is refused.\<close>

definition letters_factory :: "'f factory" where
  "letters_factory =
     \<lparr> NewUnaddressableGcode = NewUnaddressableGcode GcodeFactory,
       NewAddressableGcodeInt32 = new_addressable,
       NewAddressableGcodeUint32 =
         (\<lambda>w a. if 65 \<le> byte w \<and> byte w \<le> 90 then Inr (Addressable w a)
                else Inl (WordInvalidValue w)),
       NewAddressableGcodeFloat32 = new_addressable,
       NewAddressableGcodeString = NewAddressableGcodeString (GcodeFactory :: 'f factory) \<rparr>"

text \<open>
  The block that \<open>Parse\<close> makes of the line \<open>N7 G1 X2.0 Y2.0 F3000.0\<close> with the default
  factory and the decimal library, for a given hash engine.
\<close>

definition N7_block :: "8 word hasher option \<Rightarrow> (int \<times> nat, 8 word) Block" where
  "N7_block h =
     \<lparr> lineNumber = Some (Addressable (CHR ''N'') 7),
       command = Some (GInt32 (Addressable (CHR ''G'') 1)),
       parameters = [GFloat32 (Addressable (CHR ''X'') (20, 1)),
                     GFloat32 (Addressable (CHR ''Y'') (20, 1)),
                     GFloat32 (Addressable (CHR ''F'') (30000, 1))],
       checksum = None, comment = [], hash = h, gcodeFactory = Some GcodeFactory \<rparr>"

section \<open>Properties\<close>

subsection \<open>The prepared line and the loop\<close>

lemma prepareSourceToParse_Nil: "prepareSourceToParse lib [] = []"
  by (simp add: prepareSourceToParse_def TrimSpace_def ToUpper_def removeSpecialChars_def)

lemma parse_loop_Nil: "parse_loop lib fac 0 [] gcodes = Inr gcodes"
  by (simp add: parse_loop.simps)


lemma IndexRune_zero: "IndexRune s c = 0 \<longleftrightarrow> (s \<noteq> [] \<and> hd s = c)"
  by (cases s) (auto simp: IndexRune_def)

lemma IndexRune_absent: "IndexRune s c \<le> - 1 \<longleftrightarrow> c \<notin> set s"
  by (auto simp: IndexRune_def)

lemma IndexRune_hd: "IndexRune (c # s) c = 0"
  by (simp add: IndexRune_def)

lemma split_no_space: "CHR '' '' \<notin> set xs \<Longrightarrow> split cur (xs @ ys) = split (cur @ xs) ys"
  by (induction xs arbitrary: cur) auto

lemma split_tokens_Nil: "split_tokens [] = []"
  by (simp add: split_tokens_def)

lemma split_tokens_space: "split_tokens (CHR '' '' # s) = split_tokens s"
  by (simp add: split_tokens_def)

lemma split_tokens_single: "CHR '' '' \<notin> set tok \<Longrightarrow> tok \<noteq> [] \<Longrightarrow> split_tokens tok = [tok]"
  using split_no_space [of tok "[]" "[]"] by (simp add: split_tokens_def)

lemma split_tokens_token:
  "CHR '' '' \<notin> set tok \<Longrightarrow> tok \<noteq> [] \<Longrightarrow> split_tokens (tok @ CHR '' '' # s) = tok # split_tokens s"
  using split_no_space [of tok "[]" "CHR '' '' # s"] by (simp add: split_tokens_def)

lemma parse_loop_space:
  "0 \<le> i0 \<Longrightarrow> parse_loop lib fac i0 (CHR '' '' # s) gcodes = parse_loop lib fac 0 s gcodes"
  by (subst parse_loop.simps) (simp add: IndexRune_hd)

lemma length_gt_1_tl: "(1 < length xs) = (tl xs \<noteq> [])"
  by (cases xs) auto

lemma parse_loop_step:
  assumes "0 \<le> i0" "pblock \<noteq> []" "hd pblock \<noteq> CHR '' ''"
  shows "parse_loop lib fac i0 pblock gcodes =
           (let i = IndexRune pblock (CHR '' '');
                pgcode = (if i \<le> - 1 then pblock else take (nat i) pblock)
            in case sniff lib fac pgcode of
                 Inl e \<Rightarrow> Inl e
               | Inr g \<Rightarrow>
                   if i \<le> - 1 then Inr (gcodes @ [g])
                   else parse_loop lib fac i (drop (nat i) pblock) (gcodes @ [g]))"
proof -
  have z: "IndexRune pblock (CHR '' '') \<noteq> 0" using assms by (simp add: IndexRune_zero)
  have n: "\<not> i0 \<le> - 1" "length pblock \<noteq> 0" using assms by auto
  show ?thesis
  proof (cases "IndexRune pblock (CHR '' '') \<le> - 1")
    case True
    show ?thesis
      apply (subst parse_loop.simps)
      apply (simp only: n z True if_True if_False Let_def)
      apply (simp only: length_gt_1_tl sniff_def)
      apply (simp add: drop_Suc split: option.splits sum.splits)
      done
  next
    case False
    show ?thesis
      apply (subst parse_loop.simps)
      apply (simp only: n z False if_True if_False Let_def)
      apply (simp only: length_gt_1_tl sniff_def)
      apply (simp add: drop_Suc split: option.splits sum.splits)
      done
  qed
qed

lemma parse_loop_last:
  assumes "0 \<le> i0" "tok \<noteq> []" "CHR '' '' \<notin> set tok"
  shows "parse_loop lib fac i0 tok gcodes = map_sum id (\<lambda>g. gcodes @ [g]) (sniff lib fac tok)"
proof -
  have i: "IndexRune tok (CHR '' '') = - 1" using assms by (simp add: IndexRune_def)
  have h: "hd tok \<noteq> CHR '' ''" using assms by (cases tok) auto
  show ?thesis
    by (simp add: parse_loop_step [OF assms(1,2) h] i Let_def split: sum.splits)
qed

lemma parse_loop_token:
  assumes "0 \<le> i0" "tok \<noteq> []" "CHR '' '' \<notin> set tok"
  shows "parse_loop lib fac i0 (tok @ CHR '' '' # s) gcodes =
           (case sniff lib fac tok of
              Inl e \<Rightarrow> Inl e
            | Inr g \<Rightarrow> parse_loop lib fac (int (length tok)) (CHR '' '' # s) (gcodes @ [g]))"
proof -
  have tw: "takeWhile (\<lambda>x. x \<noteq> CHR '' '') (tok @ CHR '' '' # s) = tok" using assms(3)
    by (induction tok) auto
  have i: "IndexRune (tok @ CHR '' '' # s) (CHR '' '') = int (length tok)"
    by (simp add: IndexRune_def tw)
  have h: "hd (tok @ CHR '' '' # s) \<noteq> CHR '' ''" using assms by (cases tok) auto
  have n: "tok @ CHR '' '' # s \<noteq> []" by simp
  show ?thesis
    by (simp add: parse_loop_step [OF assms(1) n h] i Let_def split: sum.splits)
qed

lemma parse_loop_tokens:
  "0 \<le> i0 \<Longrightarrow> parse_loop lib fac i0 pblock gcodes = onto gcodes (sniff_all lib fac (split_tokens pblock))"
proof (induction pblock arbitrary: i0 gcodes rule: length_induct)
  case (1 pblock)
  show ?case
  proof (cases "pblock = []")
    case True
    then show ?thesis using 1(2) by (simp add: parse_loop.simps split_tokens_Nil onto_def)
  next
    case False
    show ?thesis
    proof (cases "hd pblock = CHR '' ''")
      case True
      then obtain s where s: "pblock = CHR '' '' # s" using False by (cases pblock) auto
      show ?thesis using 1 s by (simp add: parse_loop_space split_tokens_space)
    next
      case hd: False
      show ?thesis
      proof (cases "CHR '' '' \<in> set pblock")
        case False
        then show ?thesis using 1(2) \<open>pblock \<noteq> []\<close>
          by (cases "sniff lib fac pblock")
             (simp_all add: parse_loop_last split_tokens_single onto_def)
      next
        case True
        define tok where "tok = takeWhile (\<lambda>x. x \<noteq> CHR '' '') pblock"
        define rest where "rest = dropWhile (\<lambda>x. x \<noteq> CHR '' '') pblock"
        have "rest \<noteq> []" "hd rest = CHR '' ''" using True
          using hd_dropWhile [of "\<lambda>x. x \<noteq> CHR '' ''" pblock]
          by (auto simp: rest_def dropWhile_eq_Nil_conv)
        then obtain s where s: "rest = CHR '' '' # s" by (cases rest) auto
        have p: "pblock = tok @ CHR '' '' # s" using s
          by (metis tok_def rest_def takeWhile_dropWhile_id)
        have tok: "tok \<noteq> []" "CHR '' '' \<notin> set tok" using hd \<open>pblock \<noteq> []\<close>
          by (auto simp: tok_def takeWhile_eq_Nil_iff dest: set_takeWhileD)
        have len: "length s < length pblock" by (simp add: p)
        have ih: "parse_loop lib fac 0 s g = onto g (sniff_all lib fac (split_tokens s))" for g
          using 1(1) len by simp
        show ?thesis using 1(2) tok
          by (cases "sniff lib fac tok")
             (simp_all add: p parse_loop_token parse_loop_space ih split_tokens_token onto_def
                sum.map_comp comp_def id_def)
      qed
    qed
  qed
qed

lemma valid_word_not_space: "valid_word w \<Longrightarrow> w \<noteq> CHR '' ''"
  by (auto simp: valid_word_def byte_def)

lemma is_digit_not_sign: "is_digit c \<Longrightarrow> c \<noteq> CHR ''+'' \<and> c \<noteq> CHR ''-'' \<and> c \<noteq> CHR '' ''"
  by (auto simp: is_digit_def byte_def)

lemma ParseInt32_digits:
  assumes "ds \<noteq> []" "list_all is_digit ds" "digits_value ds < 2 ^ 31"
  shows "ParseInt32 ds = Some (word_of_int (digits_value ds))"
proof -
  have "is_digit (hd ds)" using assms(1,2) by (cases ds) auto
  then have "hd ds \<noteq> CHR ''+''" "hd ds \<noteq> CHR ''-''" using is_digit_not_sign by auto
  then show ?thesis using assms by (simp add: ParseInt32_def Let_def)
qed

lemma ParseInt32_digits_over:
  assumes "ds \<noteq> []" "list_all is_digit ds" "2 ^ 31 \<le> digits_value ds"
  shows "ParseInt32 ds = None"
proof -
  have "is_digit (hd ds)" using assms(1,2) by (cases ds) auto
  then have "hd ds \<noteq> CHR ''+''" "hd ds \<noteq> CHR ''-''" using is_digit_not_sign by auto
  then show ?thesis using assms by (simp add: ParseInt32_def Let_def)
qed

lemma validate_string_digits:
  assumes "list_all is_digit ds" "2 ^ 31 \<le> digits_value ds"
  shows "validate_string ds = Inl (AddressStringQuoteError ds)"
proof (cases ds)
  case Nil
  then show ?thesis using assms by (simp add: digits_value_def)
next
  case (Cons c cs)
  have c: "c \<noteq> CHR 0x22" using assms(1) Cons by (auto simp: is_digit_def byte_def)
  show ?thesis
  proof (cases cs)
    case Nil
    have "digits_value [c] \<le> 9" using assms(1) Cons Nil
      by (simp add: digits_value_def is_digit_def)
    then show ?thesis using assms(2) Cons Nil by simp
  next
    case (Cons c' cs')
    then show ?thesis using \<open>ds = c # cs\<close> c by (simp add: validate_string_def)
  qed
qed

text \<open>
  C1, as amended: the gcodes that the loop of \<open>Parse\<close> makes of a prepared line are those
  of the spec's reading: one for each token between spaces, an unaddressable gcode for a
  token of one byte, and for a longer token the int32 reading first, then the float32
  reading, then the string, the first success deciding. With the default factory, a valid
  word followed by decimal digits gives an int32 gcode when the value of the digits is
  under \<open>2^31\<close> (such as \<open>3\<close>), whatever the float parser would say of it; when the
  value is \<open>2^31\<close> or more, the int32 reading fails, the gcode is a float32 gcode if the
  float parser accepts the digits, and the parse fails if it does not. Digits never give a
  string gcode.
\<close>

theorem Parse_sniffs_each_token:
  "parse_loop lib fac 0 pblock [] = sniff_all lib fac (split_tokens pblock) \<and>
   (\<forall>w ds. valid_word w \<longrightarrow> ds \<noteq> [] \<longrightarrow> list_all is_digit ds \<longrightarrow> digits_value ds < 2 ^ 31 \<longrightarrow>
      parse_loop lib GcodeFactory 0 (w # ds) [] =
        Inr [GInt32 (Addressable w (word_of_int (digits_value ds)))]) \<and>
   (\<forall>w ds. valid_word w \<longrightarrow> ds \<noteq> [] \<longrightarrow> list_all is_digit ds \<longrightarrow> 2 ^ 31 \<le> digits_value ds \<longrightarrow>
      parse_loop lib GcodeFactory 0 (w # ds) [] =
        (case ParseFloat32 lib ds of
           Some x \<Rightarrow> Inr [GFloat32 (Addressable w x)]
         | None \<Rightarrow> Inl (AddressStringQuoteError ds))) \<and>
   (\<forall>w. w \<noteq> CHR '' '' \<longrightarrow>
      parse_loop lib fac 0 [w] [] =
        (case NewUnaddressableGcode fac w of Inl e \<Rightarrow> Inl e | Inr g \<Rightarrow> Inr [g]))"
proof (intro conjI allI impI)
  show "parse_loop lib fac 0 pblock [] = sniff_all lib fac (split_tokens pblock)"
    by (simp add: parse_loop_tokens onto_def sum.map_id0 id_def [symmetric])
next
  fix w ds
  assume w: "valid_word w" and ds: "ds \<noteq> []" "list_all is_digit ds" "digits_value ds < 2 ^ 31"
  have "CHR '' '' \<notin> set ds"
    using ds(2) is_digit_not_sign by (auto simp: list_all_iff)
  then have "CHR '' '' \<notin> set (w # ds)" using valid_word_not_space [OF w] by auto
  then have "parse_loop lib GcodeFactory 0 (w # ds) [] = sniff_all lib GcodeFactory [w # ds]"
    by (simp add: parse_loop_tokens onto_def sum.map_id0 id_def [symmetric] split_tokens_single)
  also have "\<dots> = Inr [GInt32 (Addressable w (word_of_int (digits_value ds)))]"
    using w ds by (simp add: sniff_def ParseInt32_digits GcodeFactory_def new_addressable_def)
  finally show "parse_loop lib GcodeFactory 0 (w # ds) [] =
      Inr [GInt32 (Addressable w (word_of_int (digits_value ds)))]" .
next
  fix w ds
  assume w: "valid_word w" and ds: "ds \<noteq> []" "list_all is_digit ds" "2 ^ 31 \<le> digits_value ds"
  have "CHR '' '' \<notin> set ds"
    using ds(2) is_digit_not_sign by (auto simp: list_all_iff)
  then have "CHR '' '' \<notin> set (w # ds)" using valid_word_not_space [OF w] by auto
  then have "parse_loop lib GcodeFactory 0 (w # ds) [] = sniff_all lib GcodeFactory [w # ds]"
    by (simp add: parse_loop_tokens onto_def sum.map_id0 id_def [symmetric] split_tokens_single)
  also have "\<dots> = (case ParseFloat32 lib ds of
           Some x \<Rightarrow> Inr [GFloat32 (Addressable w x)]
         | None \<Rightarrow> Inl (AddressStringQuoteError ds))"
    using w ds(1)
    by (simp add: sniff_def ParseInt32_digits_over [OF ds] validate_string_digits [OF ds(2,3)]
        GcodeFactory_def new_addressable_def split: option.splits)
  finally show "parse_loop lib GcodeFactory 0 (w # ds) [] =
      (case ParseFloat32 lib ds of
           Some x \<Rightarrow> Inr [GFloat32 (Addressable w x)]
         | None \<Rightarrow> Inl (AddressStringQuoteError ds))" .
next
  fix w :: char
  assume "w \<noteq> CHR '' ''"
  then have "parse_loop lib fac 0 [w] [] = sniff_all lib fac [[w]]"
    by (simp add: parse_loop_tokens onto_def sum.map_id0 id_def [symmetric] split_tokens_single)
  then show "parse_loop lib fac 0 [w] [] =
      (case NewUnaddressableGcode fac w of Inl e \<Rightarrow> Inl e | Inr g \<Rightarrow> Inr [g])"
    by (simp add: sniff_def split: sum.splits)
qed

theorem Parse_sniffs_each_token_witness:
  "parse_loop decimal_lib GcodeFactory 0 ''G1 X2.0 F'' [] =
     Inr [GInt32 (Addressable (CHR ''G'') 1), GFloat32 (Addressable (CHR ''X'') (20, 1)),
          Unaddressable (CHR ''F'')] \<and>
   parse_loop decimal_lib GcodeFactory 0 ''X3'' [] = Inr [GInt32 (Addressable (CHR ''X'') 3)] \<and>
   parse_loop decimal_lib GcodeFactory 0 ''X2147483648'' [] =
     Inr [GFloat32 (Addressable (CHR ''X'') (2147483648, 0))] \<and>
   parse_loop decimal_lib GcodeFactory 0 ''F'' [] = Inr [Unaddressable (CHR ''F'')]"
proof -
  note t = Parse_sniffs_each_token [of decimal_lib GcodeFactory "''G1 X2.0 F''"]
  have a: "sniff_all decimal_lib GcodeFactory (split_tokens ''G1 X2.0 F'') =
      Inr [GInt32 (Addressable (CHR ''G'') 1), GFloat32 (Addressable (CHR ''X'') (20, 1)),
           Unaddressable (CHR ''F'')]"
    by code_simp
  have w: "valid_word (CHR ''X'')" "list_all is_digit ''3''" "digits_value ''3'' < 2 ^ 31"
    by code_simp+
  have v: "word_of_int (digits_value ''3'') = (3 :: 32 word)"
    by code_simp
  have o: "list_all is_digit ''2147483648''" "2 ^ 31 \<le> digits_value ''2147483648''"
    by code_simp+
  have f: "(case ParseFloat32 decimal_lib ''2147483648'' of
              Some x \<Rightarrow> Inr [GFloat32 (Addressable (CHR ''X'') x)]
            | None \<Rightarrow> Inl (AddressStringQuoteError ''2147483648'')) =
           Inr [GFloat32 (Addressable (CHR ''X'') (2147483648, 0))]"
    by code_simp
  have u: "(case NewUnaddressableGcode GcodeFactory (CHR ''F'') of
              Inl e \<Rightarrow> Inl e | Inr g \<Rightarrow> Inr [g]) =
           (Inr [Unaddressable (CHR ''F'')] :: error + (int \<times> nat) gcoder list)"
    by code_simp
  have 1: "parse_loop decimal_lib GcodeFactory 0 ''G1 X2.0 F'' [] =
     Inr [GInt32 (Addressable (CHR ''G'') 1), GFloat32 (Addressable (CHR ''X'') (20, 1)),
          Unaddressable (CHR ''F'')]"
    using t a by simp
  have "parse_loop decimal_lib GcodeFactory 0 (CHR ''X'' # ''3'') [] =
        Inr [GInt32 (Addressable (CHR ''X'') (word_of_int (digits_value ''3'')))]"
    using t w by blast
  then have 2: "parse_loop decimal_lib GcodeFactory 0 ''X3'' [] =
      Inr [GInt32 (Addressable (CHR ''X'') 3)]"
    by (simp only: v)
  have "parse_loop decimal_lib GcodeFactory 0 (CHR ''X'' # ''2147483648'') [] =
      (case ParseFloat32 decimal_lib ''2147483648'' of
         Some x \<Rightarrow> Inr [GFloat32 (Addressable (CHR ''X'') x)]
       | None \<Rightarrow> Inl (AddressStringQuoteError ''2147483648''))"
    using t w(1) o by blast
  then have 3: "parse_loop decimal_lib GcodeFactory 0 ''X2147483648'' [] =
      Inr [GFloat32 (Addressable (CHR ''X'') (2147483648, 0))]"
    by (simp only: f)
  have "parse_loop decimal_lib GcodeFactory 0 [CHR ''F''] [] =
      (case NewUnaddressableGcode GcodeFactory (CHR ''F'') of
         Inl e \<Rightarrow> Inl e | Inr g \<Rightarrow> Inr [g])"
    using t by blast
  then have 4: "parse_loop decimal_lib GcodeFactory 0 ''F'' [] = Inr [Unaddressable (CHR ''F'')]"
    by (simp only: u)
  show ?thesis using 1 2 3 4 by blast
qed

text \<open>
  C1, as stated, fails on digits of a value over the range of int32: \<open>ParseInt\<close> refuses
  \<open>2147483648\<close>, and the token \<open>X2147483648\<close> becomes a float32 gcode.
\<close>

theorem digits_over_int32_are_not_int32:
  "ParseInt32 ''2147483648'' = None \<and>
   (case parse_loop decimal_lib GcodeFactory 0 ''X2147483648'' [] of
      Inr [GFloat32 a] \<Rightarrow> a = Addressable (CHR ''X'') (2147483648, 0)
    | _ \<Rightarrow> False)"
  by code_simp

lemma foldl_snoc_map: "foldl (\<lambda>vs g. vs @ [f g]) acc xs = acc @ map f xs"
  by (induction xs arbitrary: acc) auto

lemma ToLine_sections:
  "ToLine lib b =
     Join ((case lineNumber b of None \<Rightarrow> [] | Some ln \<Rightarrow> [uint32_String ln]) @
           (case command b of None \<Rightarrow> [] | Some c \<Rightarrow> [gcoder_String lib c]) @
           map (gcoder_String lib) (parameters b)) '' ''"
  by (simp add: ToLine_def Let_def foldl_snoc_map BLOCK_SEPARATOR_def split: option.splits)

lemma ToLine_hash_update [simp]: "ToLine lib (b\<lparr>hash := x\<rparr>) = ToLine lib b"
  by (simp add: ToLine_def)

lemma ToLine_checksum_update [simp]: "ToLine lib (b\<lparr>checksum := x\<rparr>) = ToLine lib b"
  by (simp add: ToLine_def)

lemma ToLine_comment_update [simp]: "ToLine lib (b\<lparr>comment := x\<rparr>) = ToLine lib b"
  by (simp add: ToLine_def)

text \<open>
  C7: \<open>ToLine\<close> joins, with one space between them, the line number (when there is
  one), the command (when there is one) and the parameters in their order;
  \<open>ToLineWithCheck\<close> is \<open>ToLine\<close>, followed by a space and the checksum when one is
  stored; \<open>ToLineWithCheckAndComments\<close> is \<open>ToLineWithCheck\<close>, followed by a space and the
  comment when the comment is not empty; \<open>String\<close> is \<open>ToLineWithCheckAndComments\<close>.
\<close>

theorem ToLine_joins_sections:
  "ToLine lib b =
     Join ((case lineNumber b of None \<Rightarrow> [] | Some ln \<Rightarrow> [uint32_String ln]) @
           (case command b of None \<Rightarrow> [] | Some c \<Rightarrow> [gcoder_String lib c]) @
           map (gcoder_String lib) (parameters b)) '' '' \<and>
   ToLineWithCheck lib b =
     (case checksum b of
        None \<Rightarrow> ToLine lib b
      | Some c \<Rightarrow> ToLine lib b @ '' '' @ uint32_String c) \<and>
   ToLineWithCheckAndComments lib b =
     (if comment b = [] then ToLineWithCheck lib b
      else ToLineWithCheck lib b @ '' '' @ comment b) \<and>
   Block_String lib b = ToLineWithCheckAndComments lib b"
  by (simp add: ToLine_sections ToLineWithCheck_def ToLineWithCheckAndComments_def
      Block_String_def BLOCK_SEPARATOR_def Let_def split: option.splits)

lemma CalculateChecksum_checksum [simp]:
  "checksum (snd (CalculateChecksum lib b)) = checksum b"
  by (simp add: CalculateChecksum_def Let_def split: option.splits prod.splits sum.splits)

lemma CalculateChecksum_again:
  assumes "\<forall>h st. hash b = Some h \<longrightarrow> hReset h st = hReset h (hstate h)"
  shows "CalculateChecksum lib (snd (CalculateChecksum lib b)) = CalculateChecksum lib b"
proof (cases "hash b")
  case None
  then show ?thesis by (simp add: CalculateChecksum_def)
next
  case (Some h)
  obtain err st where w: "hWrite h (hReset h (hstate h)) (ToLine lib b) = (err, st)"
    by (cases "hWrite h (hReset h (hstate h)) (ToLine lib b)") auto
  define b' where "b' = b\<lparr>hash := Some (h\<lparr>hstate := st\<rparr>)\<rparr>"
  have s: "snd (CalculateChecksum lib b) = b'"
    using Some w by (simp add: CalculateChecksum_def Let_def b'_def split: option.splits sum.splits)
  have r: "hReset h st = hReset h (hstate h)" using assms Some by simp
  have "CalculateChecksum lib b' = CalculateChecksum lib b"
    using Some w r by (simp add: CalculateChecksum_def Let_def b'_def split: option.splits sum.splits)
  then show ?thesis by (simp add: s)
qed

lemma CalculateChecksum_checksum_irrelevant:
  "fst (CalculateChecksum lib (b\<lparr>checksum := c\<rparr>)) = fst (CalculateChecksum lib b) \<and>
   snd (CalculateChecksum lib (b\<lparr>checksum := c\<rparr>)) = (snd (CalculateChecksum lib b))\<lparr>checksum := c\<rparr>"
  by (simp add: CalculateChecksum_def Let_def split: option.splits prod.splits sum.splits)

text \<open>
  C9: on a block whose hash engine is reset to the same state whatever state it is in,
  a second \<open>CalculateChecksum\<close> returns what the first returned, and the checksum stored
  after a second \<open>UpdateChecksum\<close> is the one stored after the first.
\<close>

theorem checksum_deterministic_and_idempotent:
  assumes "\<forall>h st. hash b = Some h \<longrightarrow> hReset h st = hReset h (hstate h)"
  shows "fst (CalculateChecksum lib (snd (CalculateChecksum lib b))) = fst (CalculateChecksum lib b) \<and>
         checksum (snd (UpdateChecksum lib (snd (UpdateChecksum lib b)))) =
           checksum (snd (UpdateChecksum lib b))"
proof
  show "fst (CalculateChecksum lib (snd (CalculateChecksum lib b))) = fst (CalculateChecksum lib b)"
    by (simp add: CalculateChecksum_again [OF assms])
next
  obtain r b1 where c: "CalculateChecksum lib b = (r, b1)"
    by (cases "CalculateChecksum lib b") auto
  have again: "CalculateChecksum lib b1 = (r, b1)"
    using CalculateChecksum_again [OF assms, of lib] c by simp
  show "checksum (snd (UpdateChecksum lib (snd (UpdateChecksum lib b)))) =
      checksum (snd (UpdateChecksum lib b))"
  proof (cases r)
    case (Returned gc)
    have u: "UpdateChecksum lib b = (Returned (), b1\<lparr>checksum := Some gc\<rparr>)"
      using c Returned by (simp add: UpdateChecksum_def)
    have "fst (CalculateChecksum lib (b1\<lparr>checksum := Some gc\<rparr>)) = Returned gc"
      using CalculateChecksum_checksum_irrelevant [where lib = lib and b = b1 and c = "Some gc"]
        again Returned by simp
    then obtain b2 where "CalculateChecksum lib (b1\<lparr>checksum := Some gc\<rparr>) = (Returned gc, b2)"
      by (cases "CalculateChecksum lib (b1\<lparr>checksum := Some gc\<rparr>)") auto
    then have u2: "UpdateChecksum lib (b1\<lparr>checksum := Some gc\<rparr>) =
        (Returned (), b2\<lparr>checksum := Some gc\<rparr>)"
      by (simp add: UpdateChecksum_def)
    show ?thesis by (simp add: u u2)
  next
    case (Panicked p)
    have "UpdateChecksum lib b = (Panicked p, b1)" "UpdateChecksum lib b1 = (Panicked p, b1)"
      using c again Panicked by (simp_all add: UpdateChecksum_def)
    then show ?thesis by simp
  next
    case (Failed e)
    have "UpdateChecksum lib b = (Failed (UpdateFailed (Block_String lib b1) e), b1)"
      "UpdateChecksum lib b1 = (Failed (UpdateFailed (Block_String lib b1) e), b1)"
      using c again Failed by (simp_all add: UpdateChecksum_def)
    then show ?thesis by simp
  qed
qed

theorem checksum_deterministic_and_idempotent_witness:
  "fst (CalculateChecksum decimal_lib (snd (CalculateChecksum decimal_lib (N7_block (Some xor_hasher))))) =
     Returned (Addressable (CHR ''*'') 85) \<and>
   fst (CalculateChecksum decimal_lib (N7_block (Some xor_hasher))) =
     Returned (Addressable (CHR ''*'') 85) \<and>
   checksum (snd (UpdateChecksum decimal_lib (snd (UpdateChecksum decimal_lib (N7_block (Some xor_hasher)))))) =
     Some (Addressable (CHR ''*'') 85) \<and>
   checksum (snd (UpdateChecksum decimal_lib (N7_block (Some xor_hasher)))) =
     Some (Addressable (CHR ''*'') 85)"
proof -
  have r: "\<forall>h st. hash (N7_block (Some xor_hasher)) = Some h \<longrightarrow> hReset h st = hReset h (hstate h)"
    by (simp add: N7_block_def xor_hasher_def)
  note t = checksum_deterministic_and_idempotent [OF r, of decimal_lib]
  have c: "fst (CalculateChecksum decimal_lib (N7_block (Some xor_hasher))) =
      Returned (Addressable (CHR ''*'') 85)"
    by code_simp
  have u: "checksum (snd (UpdateChecksum decimal_lib (N7_block (Some xor_hasher)))) =
      Some (Addressable (CHR ''*'') 85)"
    by code_simp
  show ?thesis using t c u by simp
qed

lemma VerifyChecksum_checksum [simp]:
  "checksum (snd (VerifyChecksum lib b)) = checksum b"
proof (cases "checksum b")
  case None
  then show ?thesis by (simp add: VerifyChecksum_def)
next
  case (Some stored)
  obtain r b1 where c: "CalculateChecksum lib b = (r, b1)"
    by (cases "CalculateChecksum lib b") auto
  have "checksum b1 = checksum b" using CalculateChecksum_checksum [of lib b] c by simp
  then show ?thesis using Some c by (cases r) (simp_all add: VerifyChecksum_def)
qed

text \<open>
  C6, as amended: with no stored checksum \<open>VerifyChecksum\<close> returns an error and leaves
  the block as it is; with a stored checksum, when the recomputation returns a gcode, it
  returns whether word and address of the stored checksum equal those of the recomputed
  one, and when the recomputation returns an error, it returns that error wrapped; the
  stored checksum is the same after the call in every case.
\<close>

theorem VerifyChecksum_by_cases:
  "(checksum b = None \<longrightarrow>
      VerifyChecksum lib b = (Failed (NoCheckSection (Block_String lib b)), b)) \<and>
   (\<forall>stored gc. checksum b = Some stored \<longrightarrow> fst (CalculateChecksum lib b) = Returned gc \<longrightarrow>
      fst (VerifyChecksum lib b) =
        Returned (aword stored = aword gc \<and> address stored = address gc)) \<and>
   (\<forall>stored e. checksum b = Some stored \<longrightarrow> fst (CalculateChecksum lib b) = Failed e \<longrightarrow>
      fst (VerifyChecksum lib b) =
        Failed (VerifyFailed (Block_String lib (snd (CalculateChecksum lib b))) e)) \<and>
   checksum (snd (VerifyChecksum lib b)) = checksum b"
proof (intro conjI allI impI)
  fix stored gc
  assume "checksum b = Some stored" "fst (CalculateChecksum lib b) = Returned gc"
  then show "fst (VerifyChecksum lib b) =
      Returned (aword stored = aword gc \<and> address stored = address gc)"
    by (cases "CalculateChecksum lib b") (simp add: VerifyChecksum_def Compare_def)
next
  fix stored e
  assume "checksum b = Some stored" "fst (CalculateChecksum lib b) = Failed e"
  then show "fst (VerifyChecksum lib b) =
      Failed (VerifyFailed (Block_String lib (snd (CalculateChecksum lib b))) e)"
    by (cases "CalculateChecksum lib b") (simp add: VerifyChecksum_def)
next
  assume "checksum b = None"
  then show "VerifyChecksum lib b = (Failed (NoCheckSection (Block_String lib b)), b)"
    by (simp add: VerifyChecksum_def)
next
  show "checksum (snd (VerifyChecksum lib b)) = checksum b"
    by (rule VerifyChecksum_checksum)
qed

theorem VerifyChecksum_by_cases_witness:
  "VerifyChecksum decimal_lib (N7_block (Some xor_hasher)) =
     (Failed (NoCheckSection ''N7 G1 X2.0 Y2.0 F3000.0''), N7_block (Some xor_hasher)) \<and>
   fst (VerifyChecksum decimal_lib
         ((N7_block (Some xor_hasher))\<lparr>checksum := Some (Addressable (CHR ''*'') 85)\<rparr>)) =
     Returned True \<and>
   fst (VerifyChecksum decimal_lib
         ((N7_block (Some xor_hasher))\<lparr>checksum := Some (Addressable (CHR ''*'') 67)\<rparr>)) =
     Returned False \<and>
   fst (VerifyChecksum decimal_lib
         ((N7_block (Some xor_hasher))\<lparr>checksum := Some (Addressable (CHR ''*'') 85),
                                         gcodeFactory := Some letters_factory\<rparr>)) =
     Failed (VerifyFailed ''N7 G1 X2.0 Y2.0 F3000.0 *85''
              (ChecksumGcodeFailed 85 (WordInvalidValue (CHR ''*''))))"
proof -
  let ?b = "N7_block (Some xor_hasher)"
  let ?b85 = "?b\<lparr>checksum := Some (Addressable (CHR ''*'') 85)\<rparr>"
  let ?b67 = "?b\<lparr>checksum := Some (Addressable (CHR ''*'') 67)\<rparr>"
  let ?bl = "?b\<lparr>checksum := Some (Addressable (CHR ''*'') 85), gcodeFactory := Some letters_factory\<rparr>"
  have n: "checksum ?b = None" by (simp add: N7_block_def)
  have s: "Block_String decimal_lib ?b = ''N7 G1 X2.0 Y2.0 F3000.0''" by code_simp
  have 1: "VerifyChecksum decimal_lib ?b = (Failed (NoCheckSection ''N7 G1 X2.0 Y2.0 F3000.0''), ?b)"
    using VerifyChecksum_by_cases [of ?b decimal_lib] n s by simp
  have c85: "fst (CalculateChecksum decimal_lib ?b85) = Returned (Addressable (CHR ''*'') 85)"
    by code_simp
  have 2: "fst (VerifyChecksum decimal_lib ?b85) = Returned True"
    using VerifyChecksum_by_cases [of ?b85 decimal_lib] c85 by simp
  have c67: "fst (CalculateChecksum decimal_lib ?b67) = Returned (Addressable (CHR ''*'') 85)"
    by code_simp
  have 3: "fst (VerifyChecksum decimal_lib ?b67) = Returned False"
    using VerifyChecksum_by_cases [of ?b67 decimal_lib] c67 by simp
  have cl: "fst (CalculateChecksum decimal_lib ?bl) =
      Failed (ChecksumGcodeFailed 85 (WordInvalidValue (CHR ''*'')))"
    by code_simp
  have sl: "Block_String decimal_lib (snd (CalculateChecksum decimal_lib ?bl)) =
      ''N7 G1 X2.0 Y2.0 F3000.0 *85''"
    by code_simp
  have 4: "fst (VerifyChecksum decimal_lib ?bl) =
     Failed (VerifyFailed ''N7 G1 X2.0 Y2.0 F3000.0 *85''
              (ChecksumGcodeFailed 85 (WordInvalidValue (CHR ''*''))))"
    using VerifyChecksum_by_cases [of ?bl decimal_lib] cl sl by simp
  show ?thesis using 1 2 3 4 by blast
qed

text \<open>
  C6, as stated, fails twice. A block built by \<open>New\<close> with a checksum and no hash engine
  has the checksum stored, and \<open>VerifyChecksum\<close> panics on it. A block with a checksum, a
  hash engine and a factory that refuses the word \<open>*\<close> has the checksum stored, and
  \<open>VerifyChecksum\<close> returns an error.
\<close>

theorem VerifyChecksum_errors_and_panics:
  "(case New decimal_lib (Some (GInt32 (Addressable (CHR ''G'') 92)))
           [\<lambda>config. Inr (config @ [StoreChecksum (Addressable (CHR ''*'') 67)])] of
      Returned b \<Rightarrow>
        checksum b = Some (Addressable (CHR ''*'') 67) \<and>
        fst (VerifyChecksum decimal_lib (b :: (int \<times> nat, 8 word) Block)) = Panicked NilDereference
    | _ \<Rightarrow> False) \<and>
   (case New decimal_lib (Some (GInt32 (Addressable (CHR ''G'') 92)))
           [\<lambda>config. Inr (config @ [StoreChecksum (Addressable (CHR ''*'') 67),
                                     StoreHash (Some xor_hasher),
                                     StoreGcodeFactory (Some letters_factory)])] of
      Returned b \<Rightarrow>
        checksum b = Some (Addressable (CHR ''*'') 67) \<and>
        fst (VerifyChecksum decimal_lib b) =
          Failed (VerifyFailed ''G92 *67'' (ChecksumGcodeFailed 76 (WordInvalidValue (CHR ''*''))))
    | _ \<Rightarrow> False)"
  by code_simp

subsection \<open>Lines with the default factory\<close>

lemma parse_loop_spec:
  "parse_loop lib fac 0 pblock [] = sniff_all lib fac (split_tokens pblock)"
  by (simp add: parse_loop_tokens onto_def sum.map_id0 id_def [symmetric])

lemma sniff_int:
  "ParseInt32 ds = Some v \<Longrightarrow> ds \<noteq> [] \<Longrightarrow> valid_word w \<Longrightarrow>
   sniff lib GcodeFactory (w # ds) = Inr (GInt32 (Addressable w v))"
  by (simp add: sniff_def GcodeFactory_def new_addressable_def)

lemma sniff_float:
  "ParseInt32 ds = None \<Longrightarrow> ParseFloat32 lib ds = Some x \<Longrightarrow> ds \<noteq> [] \<Longrightarrow> valid_word w \<Longrightarrow>
   sniff lib GcodeFactory (w # ds) = Inr (GFloat32 (Addressable w x))"
  by (simp add: sniff_def GcodeFactory_def new_addressable_def)

lemma sniff_string_refused:
  "ParseInt32 ds = None \<Longrightarrow> ParseFloat32 lib ds = None \<Longrightarrow> ds \<noteq> [] \<Longrightarrow> valid_word w \<Longrightarrow>
   validate_string ds = Inl e \<Longrightarrow> sniff lib GcodeFactory (w # ds) = Inl e"
  by (simp add: sniff_def GcodeFactory_def)

lemma sniff_invalid_word:
  assumes "\<not> valid_word w"
  shows "sniff lib GcodeFactory (w # ds) = Inl (WordInvalidValue w)"
  using assms
  by (simp add: sniff_def GcodeFactory_def new_addressable_def split: option.splits)

lemma uint32_of_int32_bits: "uint32_of_int32 x = x"
  by (simp add: uint32_of_int32_def)

lemma line_number_of_default:
  "line_number_of GcodeFactory ln2 = Some (Addressable (CHR ''N'') (address ln2))"
  by (simp add: line_number_of_def GcodeFactory_def new_addressable_def valid_word_def
      byte_def uint32_of_int32_bits)

lemma Parse_stores_factory:
  "Parse lib s h fa = Returned b \<Longrightarrow>
   gcodeFactory b = Some (case fa of None \<Rightarrow> GcodeFactory | Some f \<Rightarrow> f)"
  by (auto simp: Parse_def Let_def split: sum.splits if_splits gcoder.splits)

lemma prepared_g1_x3: "prepareSourceToParse lib ''g1 x3'' = ''G1 X3''"
  by code_simp

lemma gcodes_G1_X3:
  "parse_loop lib GcodeFactory 0 ''G1 X3'' [] =
     Inr [GInt32 (Addressable (CHR ''G'') 1), GInt32 (Addressable (CHR ''X'') 3)]"
proof -
  have t: "split_tokens ''G1 X3'' = [''G1'', ''X3'']"
    by code_simp
  have i: "ParseInt32 ''1'' = Some 1" "ParseInt32 ''3'' = Some 3"
    by code_simp+
  have w: "valid_word (CHR ''G'')" "valid_word (CHR ''X'')"
    by code_simp+
  show ?thesis
    by (simp add: parse_loop_spec t sniff_int i w)
qed

text \<open>
  C10: a nil factory is no failure of \<open>Parse\<close>: the default factory of the package takes
  its place. For every line and hash engine the call with nil returns what the call with
  the default factory returns; the gcodes are those that the default factory makes, so an
  error of the default factory is the error of the call; a block that the call returns
  holds the default factory; and the call does return a block, as on the line \<open>g1 x3\<close>.
\<close>

theorem Parse_nil_factory_is_default:
  "Parse lib s h None = Parse lib s h (Some GcodeFactory) \<and>
   (\<forall>b. Parse lib s h None = Returned b \<longrightarrow> gcodeFactory b = Some GcodeFactory) \<and>
   (\<forall>e. parse_loop lib GcodeFactory 0 (prepareSourceToParse lib s) [] = Inl e \<longrightarrow>
      Parse lib s h None = Failed e) \<and>
   Parse lib ''g1 x3'' h None =
     Returned \<lparr> lineNumber = None, command = Some (GInt32 (Addressable (CHR ''G'') 1)),
                parameters = [GInt32 (Addressable (CHR ''X'') 3)], checksum = None,
                comment = [], hash = h, gcodeFactory = Some GcodeFactory \<rparr>"
proof (intro conjI allI impI)
  show "Parse lib s h None = Parse lib s h (Some GcodeFactory)"
    by (simp add: Parse_def)
next
  fix b
  assume "Parse lib s h None = Returned b"
  then show "gcodeFactory b = Some GcodeFactory"
    using Parse_stores_factory [of lib s h None b] by simp
next
  fix e
  assume "parse_loop lib GcodeFactory 0 (prepareSourceToParse lib s) [] = Inl e"
  then show "Parse lib s h None = Failed e"
    by (simp add: Parse_def)
next
  show "Parse lib ''g1 x3'' h None =
     Returned \<lparr> lineNumber = None, command = Some (GInt32 (Addressable (CHR ''G'') 1)),
                parameters = [GInt32 (Addressable (CHR ''X'') 3)], checksum = None,
                comment = [], hash = h, gcodeFactory = Some GcodeFactory \<rparr>"
    by (simp add: Parse_def prepared_g1_x3 gcodes_G1_X3)
qed

theorem Parse_nil_factory_is_default_witness:
  "Parse decimal_lib ''g1 x3'' (Some xor_hasher) (Some GcodeFactory) =
     Returned \<lparr> lineNumber = None, command = Some (GInt32 (Addressable (CHR ''G'') 1)),
                parameters = [GInt32 (Addressable (CHR ''X'') 3)], checksum = None,
                comment = [], hash = Some xor_hasher, gcodeFactory = Some GcodeFactory \<rparr> \<and>
   (\<exists>b. Parse decimal_lib ''g1 x3'' (Some xor_hasher) None = Returned b \<and>
        gcodeFactory b = Some GcodeFactory) \<and>
   Parse decimal_lib ''g1 @'' (Some xor_hasher) None = Failed (WordInvalidValue (CHR ''@''))"
proof -
  note t = Parse_nil_factory_is_default [of decimal_lib "''g1 x3''" "Some xor_hasher"]
  note u = Parse_nil_factory_is_default [of decimal_lib "''g1 @''" "Some xor_hasher"]
  have e: "parse_loop decimal_lib GcodeFactory 0 (prepareSourceToParse decimal_lib ''g1 @'') [] =
      Inl (WordInvalidValue (CHR ''@''))"
    by code_simp
  have 1: "Parse decimal_lib ''g1 x3'' (Some xor_hasher) (Some GcodeFactory) =
     Returned \<lparr> lineNumber = None, command = Some (GInt32 (Addressable (CHR ''G'') 1)),
                parameters = [GInt32 (Addressable (CHR ''X'') 3)], checksum = None,
                comment = [], hash = Some xor_hasher, gcodeFactory = Some GcodeFactory \<rparr>"
    using t by (elim conjE) (erule subst)
  have 2: "\<exists>b. Parse decimal_lib ''g1 x3'' (Some xor_hasher) None = Returned b \<and>
        gcodeFactory b = Some GcodeFactory"
    using t by blast
  have 3: "Parse decimal_lib ''g1 @'' (Some xor_hasher) None = Failed (WordInvalidValue (CHR ''@''))"
    using u e by blast
  show ?thesis using 1 2 3 by blast
qed

lemma prepared_N4: "prepareSourceToParse lib ''N4 G92 E0'' = ''N4 G92 E0''"
  by code_simp

lemma prepared_N4_full:
  "prepareSourceToParse lib ''N4 G92 E0*67 ;comentario'' = ''N4 G92 E0*67 ;COMENTARIO''"
  by code_simp

lemma gcodes_N4:
  "parse_loop lib GcodeFactory 0 ''N4 G92 E0'' [] =
     Inr [GInt32 (Addressable (CHR ''N'') 4), GInt32 (Addressable (CHR ''G'') 92),
          GInt32 (Addressable (CHR ''E'') 0)]"
proof -
  have t: "split_tokens ''N4 G92 E0'' = [''N4'', ''G92'', ''E0'']"
    by code_simp
  have i: "ParseInt32 ''4'' = Some 4" "ParseInt32 ''92'' = Some 92" "ParseInt32 ''0'' = Some 0"
    by code_simp+
  have w: "valid_word (CHR ''N'')" "valid_word (CHR ''G'')" "valid_word (CHR ''E'')"
    by code_simp+
  show ?thesis
    by (simp add: parse_loop_spec t sniff_int i w)
qed

lemma gcodes_N4_full:
  "parse_loop lib GcodeFactory 0 ''N4 G92 E0*67 ;COMENTARIO'' [] =
     Inl (if ParseFloat32 lib ''0*67'' = None then AddressStringQuoteError ''0*67''
          else WordInvalidValue (CHR '';''))"
proof -
  have t: "split_tokens ''N4 G92 E0*67 ;COMENTARIO'' =
      [''N4'', ''G92'', ''E0*67'', '';COMENTARIO'']"
    by code_simp
  have i: "ParseInt32 ''4'' = Some 4" "ParseInt32 ''92'' = Some 92" "ParseInt32 ''0*67'' = None"
    by code_simp+
  have w: "valid_word (CHR ''N'')" "valid_word (CHR ''G'')" "valid_word (CHR ''E'')"
    "\<not> valid_word (CHR '';'')"
    by code_simp+
  have v: "validate_string ''0*67'' = Inl (AddressStringQuoteError ''0*67'')"
    by code_simp
  show ?thesis
  proof (cases "ParseFloat32 lib ''0*67''")
    case None
    then show ?thesis
      by (simp add: parse_loop_spec t sniff_int sniff_string_refused [OF i(3) None] i w v)
  next
    case (Some x)
    then show ?thesis
      by (simp add: parse_loop_spec t sniff_int sniff_float [OF i(3) Some] sniff_invalid_word i w)
  qed
qed

text \<open>
  C3, as amended: with the default factory the line \<open>N4 G92 E0\<close> parses to the block
  of line number \<open>N4\<close>, command \<open>G92\<close> and parameters \<open>[E0]\<close>, and \<open>ToLine\<close> of that
  block is \<open>N4 G92 E0\<close>. The line \<open>N4 G92 E0*67 ;comentario\<close> does not parse: its third
  token is \<open>E0*67\<close>, whose address is no int32 and no quoted string, so the parse
  returns the error of the string address when the float parser refuses \<open>0*67\<close> (as Go's
  does); were it accepted, the word \<open>;\<close> of the last token would be refused.
\<close>

theorem Parse_N4_G92_E0:
  "Parse lib ''N4 G92 E0'' h None =
     Returned \<lparr> lineNumber = Some (Addressable (CHR ''N'') 4),
                command = Some (GInt32 (Addressable (CHR ''G'') 92)),
                parameters = [GInt32 (Addressable (CHR ''E'') 0)],
                checksum = None, comment = [], hash = h, gcodeFactory = Some GcodeFactory \<rparr> \<and>
   ToLine lib \<lparr> lineNumber = Some (Addressable (CHR ''N'') 4),
                command = Some (GInt32 (Addressable (CHR ''G'') 92)),
                parameters = [GInt32 (Addressable (CHR ''E'') 0)],
                checksum = None, comment = [], hash = h, gcodeFactory = Some GcodeFactory \<rparr> =
     ''N4 G92 E0'' \<and>
   Parse lib ''N4 G92 E0*67 ;comentario'' h None =
     Failed (if ParseFloat32 lib ''0*67'' = None then AddressStringQuoteError ''0*67''
             else WordInvalidValue (CHR '';''))"
proof (intro conjI)
  show "Parse lib ''N4 G92 E0'' h None =
     Returned \<lparr> lineNumber = Some (Addressable (CHR ''N'') 4),
                command = Some (GInt32 (Addressable (CHR ''G'') 92)),
                parameters = [GInt32 (Addressable (CHR ''E'') 0)],
                checksum = None, comment = [], hash = h, gcodeFactory = Some GcodeFactory \<rparr>"
    by (simp add: Parse_def prepared_N4 gcodes_N4 line_number_of_default)
next
  have s: "show_digits 4 = ''4''" "show_int 92 = ''92''" "show_int 0 = ''0''"
    by code_simp+
  show "ToLine lib \<lparr> lineNumber = Some (Addressable (CHR ''N'') 4),
                command = Some (GInt32 (Addressable (CHR ''G'') 92)),
                parameters = [GInt32 (Addressable (CHR ''E'') 0)],
                checksum = None, comment = [], hash = h, gcodeFactory = Some GcodeFactory \<rparr> =
     ''N4 G92 E0''"
    by (simp add: ToLine_sections uint32_String_def s)
next
  show "Parse lib ''N4 G92 E0*67 ;comentario'' h None =
     Failed (if ParseFloat32 lib ''0*67'' = None then AddressStringQuoteError ''0*67''
             else WordInvalidValue (CHR '';''))"
    by (simp only: Parse_def prepared_N4_full gcodes_N4_full Let_def option.case sum.case)
qed

theorem Parse_N4_G92_E0_witness:
  "Parse decimal_lib ''N4 G92 E0'' (Some xor_hasher) None =
     Returned \<lparr> lineNumber = Some (Addressable (CHR ''N'') 4),
                command = Some (GInt32 (Addressable (CHR ''G'') 92)),
                parameters = [GInt32 (Addressable (CHR ''E'') 0)],
                checksum = None, comment = [], hash = Some xor_hasher,
                gcodeFactory = Some GcodeFactory \<rparr> \<and>
   Parse decimal_lib ''N4 G92 E0*67 ;comentario'' (Some xor_hasher) None =
     Failed (AddressStringQuoteError ''0*67'')"
proof -
  have f: "ParseFloat32 decimal_lib ''0*67'' = None" by code_simp
  note t = Parse_N4_G92_E0 [of decimal_lib "Some xor_hasher"]
  have "Parse decimal_lib ''N4 G92 E0*67 ;comentario'' (Some xor_hasher) None =
      Failed (if ParseFloat32 decimal_lib ''0*67'' = None then AddressStringQuoteError ''0*67''
              else WordInvalidValue (CHR '';''))"
    using t by blast
  then have "Parse decimal_lib ''N4 G92 E0*67 ;comentario'' (Some xor_hasher) None =
      Failed (AddressStringQuoteError ''0*67'')"
    by (simp only: f if_True refl)
  then show ?thesis using t by blast
qed

text \<open>
  C3, as stated, fails: \<open>Parse\<close> returns an error on the line
  \<open>N4 G92 E0*67 ;comentario\<close>, and no block.
\<close>

theorem Parse_N4_with_checksum_and_comment_fails:
  "(case Parse decimal_lib ''N4 G92 E0*67 ;comentario'' (Some xor_hasher) None of
      Failed e \<Rightarrow> e = AddressStringQuoteError ''0*67''
    | _ \<Rightarrow> False)"
  by code_simp

lemma run_action_command: "run_action lib a b = Inr b' \<Longrightarrow> command b' = command b"
  by (cases a) (auto simp: setChecksum_def setGcodeFactory_def split: option.splits)

lemma run_actions_command: "run_actions lib as b = Inr b' \<Longrightarrow> command b' = command b"
proof (induction as arbitrary: b)
  case Nil
  then show ?case by simp
next
  case (Cons a as)
  then show ?case
    by (cases "run_action lib a b") (auto dest: run_action_command)
qed

lemma run_options_command:
  "run_options lib options config b = Returned b' \<Longrightarrow> command b' = command b"
proof (induction options arbitrary: config b)
  case Nil
  then show ?case by simp
next
  case (Cons option options)
  then show ?case
    by (auto split: sum.splits dest: run_actions_command)
qed

lemma Parse_command_None:
  assumes "Parse lib s h fa = Returned b"
  shows "command b = None \<longleftrightarrow>
     (\<exists>ln2. parse_loop lib (case fa of None \<Rightarrow> GcodeFactory | Some f \<Rightarrow> f) 0
              (prepareSourceToParse lib s) [] = Inr [GInt32 ln2] \<and> aword ln2 = CHR ''N'')"
proof -
  define fac where "fac = (case fa of None \<Rightarrow> GcodeFactory | Some f \<Rightarrow> f)"
  obtain gcodes where g: "parse_loop lib fac 0 (prepareSourceToParse lib s) [] = Inr gcodes"
    using assms by (cases "parse_loop lib fac 0 (prepareSourceToParse lib s) []")
      (auto simp: Parse_def fac_def)
  show ?thesis
  proof (cases "length gcodes = 1")
    case True
    then obtain g0 where g0: "gcodes = [g0]" by (cases gcodes) auto
    show ?thesis using assms g
      by (cases g0) (auto simp: Parse_def fac_def [symmetric] g0 split: if_splits)
  next
    case False
    then show ?thesis using assms g
      by (auto simp: Parse_def fac_def [symmetric] split: if_splits gcoder.splits)
  qed
qed

text \<open>
  C4, as amended: \<open>New\<close> with no command fails with an error; a block that \<open>New\<close>
  returns holds the command it was given, which is not nil. A block that \<open>Parse\<close> returns
  has a command, but for one case: the line holds one gcode only and that gcode is an
  int32 gcode of word \<open>N\<close>; then the block holds the line number and no command.
  Both constructions do return blocks: \<open>New\<close> with a command and no option, and
  \<open>Parse\<close> on the line \<open>N4\<close>, whose block has no command.
\<close>

theorem command_of_constructed_block:
  "New lib None options = Failed CommandRequired \<and>
   (\<forall>b. New lib cmd options = Returned b \<longrightarrow> cmd \<noteq> None) \<and>
   (\<forall>b. New lib cmd options = Returned b \<longrightarrow> command b = cmd) \<and>
   (\<forall>b. Parse lib s h fa = Returned b \<longrightarrow>
      (command b = None \<longleftrightarrow>
        (\<exists>ln2. parse_loop lib (case fa of None \<Rightarrow> GcodeFactory | Some f \<Rightarrow> f) 0
                 (prepareSourceToParse lib s) [] = Inr [GInt32 ln2] \<and> aword ln2 = CHR ''N''))) \<and>
   New lib (Some c) [] =
     Returned \<lparr> lineNumber = None, command = Some c, parameters = [], checksum = None,
                comment = [], hash = None, gcodeFactory = None \<rparr> \<and>
   Parse lib ''N4'' h None =
     Returned \<lparr> lineNumber = Some (Addressable (CHR ''N'') 4), command = None,
                parameters = [], checksum = None, comment = [], hash = h,
                gcodeFactory = Some GcodeFactory \<rparr>"
proof (intro conjI allI impI)
  show "New lib None options = Failed CommandRequired"
    by (simp add: New_def)
next
  show "New lib (Some c) [] =
     Returned \<lparr> lineNumber = None, command = Some c, parameters = [], checksum = None,
                comment = [], hash = None, gcodeFactory = None \<rparr>"
    by (simp add: New_def)
next
  have p: "prepareSourceToParse lib ''N4'' = ''N4''"
    by code_simp
  have t: "split_tokens ''N4'' = [''N4'']"
    by code_simp
  have i: "ParseInt32 ''4'' = Some 4" "valid_word (CHR ''N'')"
    by code_simp+
  have g: "parse_loop lib GcodeFactory 0 ''N4'' [] = Inr [GInt32 (Addressable (CHR ''N'') 4)]"
    by (simp add: parse_loop_spec t sniff_int i)
  show "Parse lib ''N4'' h None =
     Returned \<lparr> lineNumber = Some (Addressable (CHR ''N'') 4), command = None,
                parameters = [], checksum = None, comment = [], hash = h,
                gcodeFactory = Some GcodeFactory \<rparr>"
    by (simp add: Parse_def p g line_number_of_default)
next
  fix b
  assume n: "New lib cmd options = Returned b"
  then show "cmd \<noteq> None" by (cases cmd) (auto simp: New_def)
next
  fix b
  assume n: "New lib cmd options = Returned b"
  then obtain c where c: "cmd = Some c" by (cases cmd) (auto simp: New_def)
  show "command b = cmd"
    using n run_options_command [of lib options "[]" _ b] by (simp add: New_def c)
next
  fix b
  assume "Parse lib s h fa = Returned b"
  then show "command b = None \<longleftrightarrow>
        (\<exists>ln2. parse_loop lib (case fa of None \<Rightarrow> GcodeFactory | Some f \<Rightarrow> f) 0
                 (prepareSourceToParse lib s) [] = Inr [GInt32 ln2] \<and> aword ln2 = CHR ''N'')"
    by (rule Parse_command_None)
qed

theorem command_of_constructed_block_witness:
  "New decimal_lib None [\<lambda>config. Inr (config @ [StoreComment '';c''])] =
     (Failed CommandRequired :: (int \<times> nat, 8 word) Block outcome) \<and>
   (\<exists>b :: (int \<times> nat, 8 word) Block.
      New decimal_lib (Some (GInt32 (Addressable (CHR ''G'') 92)))
        [\<lambda>config. Inr (config @ [StoreComment '';c''])] = Returned b \<and>
      command b = Some (GInt32 (Addressable (CHR ''G'') 92))) \<and>
   (\<exists>b. Parse decimal_lib ''G92'' (Some xor_hasher) None = Returned b \<and> command b \<noteq> None) \<and>
   (\<exists>b. Parse decimal_lib ''N4'' (Some xor_hasher) None = Returned b \<and> command b = None)"
proof -
  let ?o = "[\<lambda>config. Inr (config @ [StoreComment '';c''])] ::
      ((int \<times> nat, 8 word) configurer) list"
  let ?g = "Some (GInt32 (Addressable (CHR ''G'') 92)) :: (int \<times> nat) gcoder option"
  note t = command_of_constructed_block [of decimal_lib ?o ?g "''G92''" "Some xor_hasher" None]
  note u = command_of_constructed_block [of decimal_lib ?o ?g "''N4''" "Some xor_hasher" None]
  have n: "case New decimal_lib ?g ?o of Returned b \<Rightarrow> True | _ \<Rightarrow> False"
    by code_simp
  then obtain b where b: "New decimal_lib ?g ?o = Returned b"
    by (cases "New decimal_lib ?g ?o") auto
  have 2: "\<exists>b. New decimal_lib ?g ?o = Returned b \<and> command b = ?g"
    using t b by blast
  have p: "case Parse decimal_lib ''G92'' (Some xor_hasher) None of
             Returned b \<Rightarrow> True | _ \<Rightarrow> False"
    "case Parse decimal_lib ''N4'' (Some xor_hasher) None of
             Returned b \<Rightarrow> True | _ \<Rightarrow> False"
    by code_simp+
  obtain b1 where b1: "Parse decimal_lib ''G92'' (Some xor_hasher) None = Returned b1"
    using p(1) by (cases "Parse decimal_lib ''G92'' (Some xor_hasher) None") auto
  obtain b2 where b2: "Parse decimal_lib ''N4'' (Some xor_hasher) None = Returned b2"
    using p(2) by (cases "Parse decimal_lib ''N4'' (Some xor_hasher) None") auto
  have g1: "parse_loop decimal_lib GcodeFactory 0 (prepareSourceToParse decimal_lib ''G92'') [] =
      Inr [GInt32 (Addressable (CHR ''G'') 92)]"
    by code_simp
  have g2: "parse_loop decimal_lib GcodeFactory 0 (prepareSourceToParse decimal_lib ''N4'') [] =
      Inr [GInt32 (Addressable (CHR ''N'') 4)]"
    by code_simp
  have 3: "command b1 \<noteq> None"
    using t b1 g1 by auto
  have 4: "command b2 = None"
    using u b2 g2 by auto
  show ?thesis using t 2 3 4 b1 b2 by blast
qed

text \<open>
  C4, as stated, fails on a line that holds a line number and nothing else: \<open>Parse\<close>
  returns a block without a command.
\<close>

theorem Parse_line_number_alone_has_no_command:
  "(case Parse decimal_lib ''N4'' (Some xor_hasher) None of
      Returned b \<Rightarrow> command b = None \<and> lineNumber b = Some (Addressable (CHR ''N'') 4)
    | _ \<Rightarrow> False)"
  by code_simp

lemma uint_of_int32:
  fixes v :: "32 word"
  shows "uint v = sint v mod 2 ^ 32"
  by (simp add: uint_sint take_bit_eq_mod)

lemma uint_of_negative_int32:
  fixes v :: "32 word"
  assumes "sint v < 0"
  shows "uint v = 2 ^ 32 + sint v"
proof -
  have lo: "- (2 ^ 31) \<le> sint v" using sint_ge [of v] by simp
  have "sint v mod 2 ^ 32 = (sint v + 2 ^ 32) mod 2 ^ 32" by simp
  also have "\<dots> = sint v + 2 ^ 32" using lo assms by (intro mod_pos_pos_trivial) simp_all
  finally show ?thesis by (simp add: uint_of_int32)
qed

lemma uint_of_nonnegative_int32:
  fixes v :: "32 word"
  assumes "0 \<le> sint v"
  shows "uint v = sint v"
proof -
  have hi: "sint v < 2 ^ 31" using sint_lt [of v] by simp
  have "sint v mod 2 ^ 32 = sint v" using hi assms by (intro mod_pos_pos_trivial) simp_all
  then show ?thesis by (simp add: uint_of_int32)
qed

lemma sniff_default_word:
  assumes "sniff lib GcodeFactory tok = Inr g"
  shows "Word g = hd tok"
  using assms
  by (auto simp: sniff_def GcodeFactory_def new_addressable_def
      split: if_splits option.splits sum.splits)

lemma Parse_first_gcode:
  assumes "parse_loop lib fac 0 (prepareSourceToParse lib s) [] = Inr (g # gs)"
  shows "Parse lib s h (Some fac) =
     (if Word g = CHR ''N''
      then (case g of
              GInt32 ln2 \<Rightarrow>
                Returned \<lparr> lineNumber = line_number_of fac ln2,
                           command = (case gs of [] \<Rightarrow> None | c # ps \<Rightarrow> Some c),
                           parameters = drop 1 gs, checksum = None, comment = [],
                           hash = h, gcodeFactory = Some fac \<rparr>
            | _ \<Rightarrow> Failed LineNumberNotParsed)
      else Returned \<lparr> lineNumber = None, command = Some g, parameters = gs,
                      checksum = None, comment = [], hash = h, gcodeFactory = Some fac \<rparr>)"
proof (cases gs)
  case Nil
  then show ?thesis using assms by (cases g) (simp_all add: Parse_def)
next
  case (Cons c ps)
  then show ?thesis using assms by (cases g) (simp_all add: Parse_def)
qed

text \<open>
  C8, as amended: when the first gcode of the line has the word \<open>N\<close> and is an int32
  gcode, \<open>Parse\<close> makes the line number of it, handing its int32 value to the factory as a
  uint32; the next gcode, when there is one, is the command (else the block has none), and
  the gcodes after it are the parameters. With the default factory the line number is
  stored with the word \<open>N\<close> and the same 32 bits, so that a negative value \<open>v\<close> is stored
  as \<open>2^32 + v\<close> and the parse does not fail. When the first gcode has the word \<open>N\<close>
  and is not an int32 gcode (no address, a float or a string), \<open>Parse\<close> returns an
  error. When the first gcode has another word, it is the command and the gcodes after
  it are the parameters. With the default factory the word of a gcode is the first byte
  of its token.
\<close>

theorem Parse_classifies_first_gcode:
  "(\<forall>g gs. parse_loop (lib :: 'f stdlib) fac 0 (prepareSourceToParse lib s) [] = Inr (g # gs) \<longrightarrow>
      (\<forall>ln2. Word g = CHR ''N'' \<longrightarrow> g = GInt32 ln2 \<longrightarrow>
         Parse lib s h (Some fac) =
           Returned \<lparr> lineNumber = line_number_of fac ln2,
                      command = (case gs of [] \<Rightarrow> None | c # ps \<Rightarrow> Some c),
                      parameters = drop 1 gs, checksum = None, comment = [],
                      hash = h, gcodeFactory = Some fac \<rparr>) \<and>
      (Word g = CHR ''N'' \<longrightarrow> (\<forall>ln2. g \<noteq> GInt32 ln2) \<longrightarrow>
         Parse lib s h (Some fac) = Failed LineNumberNotParsed) \<and>
      (Word g \<noteq> CHR ''N'' \<longrightarrow>
         Parse lib s h (Some fac) =
           Returned \<lparr> lineNumber = None, command = Some g, parameters = gs,
                      checksum = None, comment = [], hash = h, gcodeFactory = Some fac \<rparr>)) \<and>
   (\<forall>w v. \<exists>ln. line_number_of (GcodeFactory :: 'f factory) (Addressable w v) = Some ln \<and>
      aword ln = CHR ''N'' \<and> uint (address ln) = sint v mod 2 ^ 32 \<and>
      (sint v < 0 \<longrightarrow> uint (address ln) = 2 ^ 32 + sint v) \<and>
      (0 \<le> sint v \<longrightarrow> uint (address ln) = sint v)) \<and>
   (\<forall>tok g. sniff lib GcodeFactory tok = Inr g \<longrightarrow> Word g = hd tok)"
proof (intro conjI allI impI)
  fix g gs ln2
  assume "parse_loop lib fac 0 (prepareSourceToParse lib s) [] = Inr (g # gs)"
    "Word g = CHR ''N''" "g = GInt32 ln2"
  then show "Parse lib s h (Some fac) =
           Returned \<lparr> lineNumber = line_number_of fac ln2,
                      command = (case gs of [] \<Rightarrow> None | c # ps \<Rightarrow> Some c),
                      parameters = drop 1 gs, checksum = None, comment = [],
                      hash = h, gcodeFactory = Some fac \<rparr>"
    using Parse_first_gcode [of lib fac s g gs h] by simp
next
  fix g gs
  assume "parse_loop lib fac 0 (prepareSourceToParse lib s) [] = Inr (g # gs)"
    "Word g = CHR ''N''" "\<forall>ln2. g \<noteq> GInt32 ln2"
  then show "Parse lib s h (Some fac) = Failed LineNumberNotParsed"
    using Parse_first_gcode [of lib fac s g gs h] by (cases g) simp_all
next
  fix g gs
  assume "parse_loop lib fac 0 (prepareSourceToParse lib s) [] = Inr (g # gs)"
    "Word g \<noteq> CHR ''N''"
  then show "Parse lib s h (Some fac) =
           Returned \<lparr> lineNumber = None, command = Some g, parameters = gs,
                      checksum = None, comment = [], hash = h, gcodeFactory = Some fac \<rparr>"
    using Parse_first_gcode [of lib fac s g gs h] by simp
next
  fix w :: char and v :: "32 word"
  show "\<exists>ln. line_number_of (GcodeFactory :: 'f factory) (Addressable w v) = Some ln \<and>
      aword ln = CHR ''N'' \<and> uint (address ln) = sint v mod 2 ^ 32 \<and>
      (sint v < 0 \<longrightarrow> uint (address ln) = 2 ^ 32 + sint v) \<and>
      (0 \<le> sint v \<longrightarrow> uint (address ln) = sint v)"
    using uint_of_int32 [of v] uint_of_negative_int32 [of v] uint_of_nonnegative_int32 [of v]
    by (simp add: line_number_of_default)
next
  fix tok g
  assume "sniff lib GcodeFactory tok = Inr g"
  then show "Word g = hd tok" by (rule sniff_default_word)
qed

theorem Parse_classifies_first_gcode_witness:
  "Parse decimal_lib ''N-5 G1 X3'' (Some xor_hasher) (Some GcodeFactory) =
     Returned \<lparr> lineNumber = Some (Addressable (CHR ''N'') (- 5)),
                command = Some (GInt32 (Addressable (CHR ''G'') 1)),
                parameters = [GInt32 (Addressable (CHR ''X'') 3)], checksum = None,
                comment = [], hash = Some xor_hasher, gcodeFactory = Some GcodeFactory \<rparr> \<and>
   uint (- 5 :: 32 word) = 4294967291 \<and>
   Parse decimal_lib ''N1.5 G1'' (Some xor_hasher) (Some GcodeFactory) =
     Failed LineNumberNotParsed \<and>
   Parse decimal_lib ''G1 X3'' (Some xor_hasher) (Some GcodeFactory) =
     Returned \<lparr> lineNumber = None, command = Some (GInt32 (Addressable (CHR ''G'') 1)),
                parameters = [GInt32 (Addressable (CHR ''X'') 3)], checksum = None,
                comment = [], hash = Some xor_hasher, gcodeFactory = Some GcodeFactory \<rparr>"
proof -
  let ?h = "Some xor_hasher"
  note a = Parse_classifies_first_gcode [of decimal_lib GcodeFactory "''N-5 G1 X3''" ?h]
  note b = Parse_classifies_first_gcode [of decimal_lib GcodeFactory "''N1.5 G1''" ?h]
  note c = Parse_classifies_first_gcode [of decimal_lib GcodeFactory "''G1 X3''" ?h]
  have ga: "parse_loop decimal_lib GcodeFactory 0 (prepareSourceToParse decimal_lib ''N-5 G1 X3'') [] =
      Inr (GInt32 (Addressable (CHR ''N'') (- 5)) #
           [GInt32 (Addressable (CHR ''G'') 1), GInt32 (Addressable (CHR ''X'') 3)])"
    by code_simp
  have gb: "parse_loop decimal_lib GcodeFactory 0 (prepareSourceToParse decimal_lib ''N1.5 G1'') [] =
      Inr (GFloat32 (Addressable (CHR ''N'') (15, 1)) # [GInt32 (Addressable (CHR ''G'') 1)])"
    by code_simp
  have gc: "parse_loop decimal_lib GcodeFactory 0 (prepareSourceToParse decimal_lib ''G1 X3'') [] =
      Inr (GInt32 (Addressable (CHR ''G'') 1) # [GInt32 (Addressable (CHR ''X'') 3)])"
    by code_simp
  have 1: "Parse decimal_lib ''N-5 G1 X3'' ?h (Some GcodeFactory) =
     Returned \<lparr> lineNumber = line_number_of (GcodeFactory :: (int \<times> nat) factory)
                               (Addressable (CHR ''N'') (- 5)),
                command = (case [GInt32 (Addressable (CHR ''G'') 1), GInt32 (Addressable (CHR ''X'') 3)] of
                             [] \<Rightarrow> None | c # ps \<Rightarrow> Some c),
                parameters = drop 1 [GInt32 (Addressable (CHR ''G'') 1), GInt32 (Addressable (CHR ''X'') 3)],
                checksum = None, comment = [], hash = ?h, gcodeFactory = Some GcodeFactory \<rparr>"
    by (rule a [THEN conjunct1, rule_format, OF ga, THEN conjunct1, rule_format]) simp_all
  have s: "sint (- 5 :: 32 word) = - 5" by simp
  obtain ln where ln: "line_number_of (GcodeFactory :: (int \<times> nat) factory)
        (Addressable (CHR ''N'') (- 5 :: 32 word)) = Some ln"
    "sint (- 5 :: 32 word) < 0 \<longrightarrow> uint (address ln) = 2 ^ 32 + sint (- 5 :: 32 word)"
    using a by blast
  have "address ln = - 5" using ln(1) by (auto simp: line_number_of_default)
  then have 2: "uint (- 5 :: 32 word) = 4294967291" using ln(2) s by simp
  have 3: "Parse decimal_lib ''N1.5 G1'' ?h (Some GcodeFactory) = Failed LineNumberNotParsed"
    by (rule b [THEN conjunct1, rule_format, OF gb, THEN conjunct2, THEN conjunct1, rule_format])
      simp_all
  have 4: "Parse decimal_lib ''G1 X3'' ?h (Some GcodeFactory) =
     Returned \<lparr> lineNumber = None, command = Some (GInt32 (Addressable (CHR ''G'') 1)),
                parameters = [GInt32 (Addressable (CHR ''X'') 3)], checksum = None,
                comment = [], hash = ?h, gcodeFactory = Some GcodeFactory \<rparr>"
    by (rule c [THEN conjunct1, rule_format, OF gc, THEN conjunct2, THEN conjunct2, rule_format])
      simp
  have 5: "line_number_of (GcodeFactory :: (int \<times> nat) factory)
      (Addressable (CHR ''N'') (- 5 :: 32 word)) =
      Some (Addressable (CHR ''N'') (- 5))"
    by (simp add: line_number_of_default)
  show ?thesis using 1 2 3 4 by (simp add: 5)
qed

text \<open>
  C8, as stated, fails when the token of word \<open>N\<close> has no int32 address: \<open>Parse\<close>
  does not take it as the line number and returns an error, on \<open>N G1\<close> and on
  \<open>N1.5 G1\<close>.
\<close>

theorem Parse_refuses_line_number_without_int32:
  "(case Parse decimal_lib ''N G1'' (Some xor_hasher) None of
      Failed e \<Rightarrow> e = LineNumberNotParsed
    | _ \<Rightarrow> False) \<and>
   (case Parse decimal_lib ''N1.5 G1'' (Some xor_hasher) None of
      Failed e \<Rightarrow> e = LineNumberNotParsed
    | _ \<Rightarrow> False)"
  by code_simp

lemma CalculateChecksum_digest:
  assumes "hash b = Some h" "gcodeFactory b = Some fac"
    "hWrite h (hReset h (hstate h)) (ToLine lib b) = (None, st)" "hSum h st [] = d # ds"
  shows "fst (CalculateChecksum lib b) =
     (case NewAddressableGcodeUint32 fac (CHR ''*'') (word_of_int (byte d)) of
        Inl e \<Rightarrow> Failed (ChecksumGcodeFailed (byte d) e)
      | Inr gc \<Rightarrow> Returned gc)"
  using assms by (simp add: CalculateChecksum_def split: sum.splits)

lemma default_checksum_gcode:
  "NewAddressableGcodeUint32 GcodeFactory (CHR ''*'') x = Inr (Addressable (CHR ''*'') x)"
  by (simp add: GcodeFactory_def new_addressable_def valid_word_def)

lemma prepared_N7:
  "prepareSourceToParse lib ''N7 G1 X2.0 Y2.0 F3000.0'' = ''N7 G1 X2.0 Y2.0 F3000.0''"
  by code_simp

lemma gcodes_N7:
  assumes "ParseFloat32 lib ''2.0'' = Some f2" "ParseFloat32 lib ''3000.0'' = Some f3"
  shows "parse_loop lib GcodeFactory 0 ''N7 G1 X2.0 Y2.0 F3000.0'' [] =
     Inr [GInt32 (Addressable (CHR ''N'') 7), GInt32 (Addressable (CHR ''G'') 1),
          GFloat32 (Addressable (CHR ''X'') f2), GFloat32 (Addressable (CHR ''Y'') f2),
          GFloat32 (Addressable (CHR ''F'') f3)]"
proof -
  have t: "split_tokens ''N7 G1 X2.0 Y2.0 F3000.0'' =
      [''N7'', ''G1'', ''X2.0'', ''Y2.0'', ''F3000.0'']"
    by code_simp
  have i: "ParseInt32 ''7'' = Some 7" "ParseInt32 ''1'' = Some 1"
    by code_simp+
  have n: "ParseInt32 ''2.0'' = None" "ParseInt32 ''3000.0'' = None"
    by code_simp+
  have w: "valid_word (CHR ''N'')" "valid_word (CHR ''G'')" "valid_word (CHR ''X'')"
    "valid_word (CHR ''Y'')" "valid_word (CHR ''F'')"
    by code_simp+
  show ?thesis
    by (simp add: parse_loop_spec t sniff_int i w
        sniff_float [OF n(1) assms(1)] sniff_float [OF n(2) assms(2)])
qed

lemma Parse_N7:
  assumes "ParseFloat32 lib ''2.0'' = Some f2" "ParseFloat32 lib ''3000.0'' = Some f3"
  shows "Parse lib ''N7 G1 X2.0 Y2.0 F3000.0'' h None =
     Returned \<lparr> lineNumber = Some (Addressable (CHR ''N'') 7),
                command = Some (GInt32 (Addressable (CHR ''G'') 1)),
                parameters = [GFloat32 (Addressable (CHR ''X'') f2),
                              GFloat32 (Addressable (CHR ''Y'') f2),
                              GFloat32 (Addressable (CHR ''F'') f3)],
                checksum = None, comment = [], hash = h, gcodeFactory = Some GcodeFactory \<rparr>"
  by (simp add: Parse_def prepared_N7 gcodes_N7 [OF assms] line_number_of_default)

lemma ToLine_N7:
  assumes "FormatFloat1 lib f2 = ''2.0''" "FormatFloat1 lib f3 = ''3000.0''"
  shows "ToLine lib \<lparr> lineNumber = Some (Addressable (CHR ''N'') 7),
                command = Some (GInt32 (Addressable (CHR ''G'') 1)),
                parameters = [GFloat32 (Addressable (CHR ''X'') f2),
                              GFloat32 (Addressable (CHR ''Y'') f2),
                              GFloat32 (Addressable (CHR ''F'') f3)],
                checksum = None, comment = [], hash = h, gcodeFactory = fa \<rparr> =
     ''N7 G1 X2.0 Y2.0 F3000.0''"
proof -
  have s: "show_digits 7 = ''7''" "show_int 1 = ''1''"
    by code_simp+
  show ?thesis
    by (simp add: ToLine_sections uint32_String_def s assms)
qed

lemma sum_of_N7:
  "hWrite sum_hasher (hReset sum_hasher (hstate sum_hasher)) ''N7 G1 X2.0 Y2.0 F3000.0'' =
     (None, 181)"
  "hSum sum_hasher 181 [] = [CHR 0xB5]"
  "word_of_int (byte (CHR 0xB5)) = (181 :: 32 word)"
  by code_simp+

lemma xor_of_N7:
  "hWrite xor_hasher (hReset xor_hasher (hstate xor_hasher)) ''N7 G1 X2.0 Y2.0 F3000.0'' =
     (None, 85)"
  "hSum xor_hasher 85 [] = [CHR ''U'']"
  "word_of_int (byte (CHR ''U'')) = (85 :: 32 word)"
  by code_simp+

text \<open>
  C2, as amended: on a block with a hash engine and a factory, \<open>CalculateChecksum\<close> resets
  the engine, writes the bytes of \<open>ToLine\<close> to it, takes the first byte of the digest and
  returns what the factory makes of the word \<open>*\<close> and that byte as a uint32; the default
  factory makes the gcode of \<open>*\<close> and the byte. \<open>ToLine\<close> does not read the checksum or the
  comment. For the block parsed from \<open>N7 G1 X2.0 Y2.0 F3000.0\<close> (the float parser reading
  \<open>2.0\<close> and \<open>3000.0\<close>, printed back as they are), the engine that adds the bytes modulo
  256 gives 181; the engine that folds the bytes with exclusive or gives 85.
\<close>

theorem CalculateChecksum_digest_of_ToLine:
  "(\<forall>h fac st d ds. hash b = Some h \<longrightarrow> gcodeFactory b = Some fac \<longrightarrow>
      hWrite h (hReset h (hstate h)) (ToLine lib b) = (None, st) \<longrightarrow> hSum h st [] = d # ds \<longrightarrow>
      fst (CalculateChecksum lib b) =
        (case NewAddressableGcodeUint32 fac (CHR ''*'') (word_of_int (byte d)) of
           Inl e \<Rightarrow> Failed (ChecksumGcodeFailed (byte d) e)
         | Inr gc \<Rightarrow> Returned gc)) \<and>
   (\<forall>x. NewAddressableGcodeUint32 (GcodeFactory :: 'f factory) (CHR ''*'') x =
      Inr (Addressable (CHR ''*'') x)) \<and>
   ToLine (lib :: 'f stdlib) (b\<lparr>checksum := c, comment := m\<rparr>) = ToLine lib b \<and>
   (\<forall>f2 f3. ParseFloat32 lib ''2.0'' = Some f2 \<longrightarrow> ParseFloat32 lib ''3000.0'' = Some f3 \<longrightarrow>
      FormatFloat1 lib f2 = ''2.0'' \<longrightarrow> FormatFloat1 lib f3 = ''3000.0'' \<longrightarrow>
      (\<exists>b1. Parse lib ''N7 G1 X2.0 Y2.0 F3000.0'' (Some sum_hasher) None = Returned b1 \<and>
            ToLine lib b1 = ''N7 G1 X2.0 Y2.0 F3000.0'' \<and>
            fst (CalculateChecksum lib b1) = Returned (Addressable (CHR ''*'') 181)) \<and>
      (\<exists>b2. Parse lib ''N7 G1 X2.0 Y2.0 F3000.0'' (Some xor_hasher) None = Returned b2 \<and>
            ToLine lib b2 = ''N7 G1 X2.0 Y2.0 F3000.0'' \<and>
            fst (CalculateChecksum lib b2) = Returned (Addressable (CHR ''*'') 85)))"
proof (intro conjI allI impI)
  fix h fac st d ds
  assume "hash b = Some h" "gcodeFactory b = Some fac"
    "hWrite h (hReset h (hstate h)) (ToLine lib b) = (None, st)" "hSum h st [] = d # ds"
  then show "fst (CalculateChecksum lib b) =
        (case NewAddressableGcodeUint32 fac (CHR ''*'') (word_of_int (byte d)) of
           Inl e \<Rightarrow> Failed (ChecksumGcodeFailed (byte d) e)
         | Inr gc \<Rightarrow> Returned gc)"
    by (rule CalculateChecksum_digest)
next
  fix x
  show "NewAddressableGcodeUint32 (GcodeFactory :: 'f factory) (CHR ''*'') x =
      Inr (Addressable (CHR ''*'') x)"
    by (rule default_checksum_gcode)
next
  show "ToLine lib (b\<lparr>checksum := c, comment := m\<rparr>) = ToLine lib b"
    by simp
next
  fix f2 f3
  assume p: "ParseFloat32 lib ''2.0'' = Some f2" "ParseFloat32 lib ''3000.0'' = Some f3"
    and f: "FormatFloat1 lib f2 = ''2.0''" "FormatFloat1 lib f3 = ''3000.0''"
  let ?b = "\<lambda>h. \<lparr> lineNumber = Some (Addressable (CHR ''N'') 7),
                command = Some (GInt32 (Addressable (CHR ''G'') 1)),
                parameters = [GFloat32 (Addressable (CHR ''X'') f2),
                              GFloat32 (Addressable (CHR ''Y'') f2),
                              GFloat32 (Addressable (CHR ''F'') f3)],
                checksum = None, comment = [], hash = h,
                gcodeFactory = Some (GcodeFactory :: 'f factory) \<rparr>"
  have l: "ToLine lib (?b h) = ''N7 G1 X2.0 Y2.0 F3000.0''" for h :: "8 word hasher option"
    by (rule ToLine_N7 [OF f])
  have s: "fst (CalculateChecksum lib (?b (Some sum_hasher))) = Returned (Addressable (CHR ''*'') 181)"
    using CalculateChecksum_digest [of "?b (Some sum_hasher)" sum_hasher GcodeFactory lib 181 "CHR 0xB5" "[]"]
    by (simp add: l sum_of_N7 default_checksum_gcode)
  have x: "fst (CalculateChecksum lib (?b (Some xor_hasher))) = Returned (Addressable (CHR ''*'') 85)"
    using CalculateChecksum_digest [of "?b (Some xor_hasher)" xor_hasher GcodeFactory lib 85 "CHR ''U''" "[]"]
    by (simp add: l xor_of_N7 default_checksum_gcode)
  show "\<exists>b1. Parse lib ''N7 G1 X2.0 Y2.0 F3000.0'' (Some sum_hasher) None = Returned b1 \<and>
            ToLine lib b1 = ''N7 G1 X2.0 Y2.0 F3000.0'' \<and>
            fst (CalculateChecksum lib b1) = Returned (Addressable (CHR ''*'') 181)"
    using Parse_N7 [OF p, of "Some sum_hasher"] l s by blast
  show "\<exists>b2. Parse lib ''N7 G1 X2.0 Y2.0 F3000.0'' (Some xor_hasher) None = Returned b2 \<and>
            ToLine lib b2 = ''N7 G1 X2.0 Y2.0 F3000.0'' \<and>
            fst (CalculateChecksum lib b2) = Returned (Addressable (CHR ''*'') 85)"
    using Parse_N7 [OF p, of "Some xor_hasher"] l x by blast
qed

theorem CalculateChecksum_digest_of_ToLine_witness:
  "fst (CalculateChecksum decimal_lib (N7_block (Some xor_hasher))) =
     Returned (Addressable (CHR ''*'') 85) \<and>
   ToLine decimal_lib ((N7_block (Some xor_hasher))
       \<lparr>checksum := Some (Addressable (CHR ''*'') 85), comment := '';c''\<rparr>) =
     ''N7 G1 X2.0 Y2.0 F3000.0'' \<and>
   (\<exists>b1. Parse decimal_lib ''N7 G1 X2.0 Y2.0 F3000.0'' (Some sum_hasher) None = Returned b1 \<and>
         ToLine decimal_lib b1 = ''N7 G1 X2.0 Y2.0 F3000.0'' \<and>
         fst (CalculateChecksum decimal_lib b1) = Returned (Addressable (CHR ''*'') 181)) \<and>
   (\<exists>b2. Parse decimal_lib ''N7 G1 X2.0 Y2.0 F3000.0'' (Some xor_hasher) None = Returned b2 \<and>
         ToLine decimal_lib b2 = ''N7 G1 X2.0 Y2.0 F3000.0'' \<and>
         fst (CalculateChecksum decimal_lib b2) = Returned (Addressable (CHR ''*'') 85))"
proof -
  let ?b = "N7_block (Some xor_hasher)"
  note t = CalculateChecksum_digest_of_ToLine [where b = ?b and lib = decimal_lib
      and c = "Some (Addressable (CHR ''*'') 85)" and m = "'';c''"]
  have h: "hash ?b = Some xor_hasher" "gcodeFactory ?b = Some GcodeFactory"
    by (simp_all add: N7_block_def)
  have l: "ToLine decimal_lib ?b = ''N7 G1 X2.0 Y2.0 F3000.0''"
    by code_simp
  have w: "hWrite xor_hasher (hReset xor_hasher (hstate xor_hasher)) (ToLine decimal_lib ?b) =
      (None, 85)"
    by (simp only: l xor_of_N7)
  have "fst (CalculateChecksum decimal_lib ?b) =
      (case NewAddressableGcodeUint32 (GcodeFactory :: (int \<times> nat) factory) (CHR ''*'')
              (word_of_int (byte (CHR ''U''))) of
         Inl e \<Rightarrow> Failed (ChecksumGcodeFailed (byte (CHR ''U'')) e)
       | Inr gc \<Rightarrow> Returned gc)"
    by (rule t [THEN conjunct1, rule_format, OF h w xor_of_N7(2)])
  moreover have "NewAddressableGcodeUint32 (GcodeFactory :: (int \<times> nat) factory) (CHR ''*'')
      (word_of_int (byte (CHR ''U''))) = Inr (Addressable (CHR ''*'') (word_of_int (byte (CHR ''U''))))"
    using t by blast
  ultimately have 1: "fst (CalculateChecksum decimal_lib ?b) = Returned (Addressable (CHR ''*'') 85)"
    by (simp add: xor_of_N7(3))
  have 2: "ToLine decimal_lib (?b\<lparr>checksum := Some (Addressable (CHR ''*'') 85), comment := '';c''\<rparr>) =
      ''N7 G1 X2.0 Y2.0 F3000.0''"
    using t l by simp
  have f: "ParseFloat32 decimal_lib ''2.0'' = Some (20, 1)"
    "ParseFloat32 decimal_lib ''3000.0'' = Some (30000, 1)"
    "FormatFloat1 decimal_lib (20, 1) = ''2.0''"
    "FormatFloat1 decimal_lib (30000, 1) = ''3000.0''"
    by code_simp+
  have 3: "(\<exists>b1. Parse decimal_lib ''N7 G1 X2.0 Y2.0 F3000.0'' (Some sum_hasher) None = Returned b1 \<and>
         ToLine decimal_lib b1 = ''N7 G1 X2.0 Y2.0 F3000.0'' \<and>
         fst (CalculateChecksum decimal_lib b1) = Returned (Addressable (CHR ''*'') 181)) \<and>
   (\<exists>b2. Parse decimal_lib ''N7 G1 X2.0 Y2.0 F3000.0'' (Some xor_hasher) None = Returned b2 \<and>
         ToLine decimal_lib b2 = ''N7 G1 X2.0 Y2.0 F3000.0'' \<and>
         fst (CalculateChecksum decimal_lib b2) = Returned (Addressable (CHR ''*'') 85))"
    using t [THEN conjunct2, THEN conjunct2, THEN conjunct2, rule_format, OF f] .
  show ?thesis using 1 2 3 by blast
qed

text \<open>
  C2, as stated, fails on its reference vector: with the sum of the bytes modulo 256 the
  checksum of the block parsed from \<open>N7 G1 X2.0 Y2.0 F3000.0\<close> is 181, not 85.
\<close>

theorem sum_of_bytes_checksum_is_181:
  "(case Parse decimal_lib ''N7 G1 X2.0 Y2.0 F3000.0'' (Some sum_hasher) None of
      Returned b \<Rightarrow>
        fst (CalculateChecksum decimal_lib b) = Returned (Addressable (CHR ''*'') 181) \<and>
        fst (CalculateChecksum decimal_lib b) \<noteq> Returned (Addressable (CHR ''*'') 85)
    | _ \<Rightarrow> False)"
  by code_simp

text \<open>
  C5: \<open>Parse\<close> is to return a block or an error for every line and never to panic. On
  the empty line the loop leaves no gcode, and the index 0 of the empty slice panics,
  whatever the hash engine and the factory are.
\<close>

theorem Parse_empty_line_panics:
  "Parse lib [] h fac = Panicked (IndexOutOfRange 0 0)"
  by (simp add: Parse_def prepareSourceToParse_Nil parse_loop_Nil)

end
